theory Spec2Isabelle
  imports Complex_Main
begin

section \<open>Data model\<close>

text \<open>
  The engine of the configurator (compatibility checker, Smart Sync filter derivation,
  filter applier, quote summary, add-on handlers) is embedded function by function.

  JavaScript numbers are modelled as exact rationals: \<open>NaN\<close>, the infinities and the
  rounding of IEEE doubles are outside the model. Strings are lists of 8-bit characters
  (the UTF-8 bytes of the text). The attribute bag of a product, \<open>Record<string, any>\<close>
  in the source, is a record of optional fields with the types the product editor and the
  demo inventory give them; \<open>None\<close> is a missing key (\<open>undefined\<close>).
\<close>

type_synonym number = rat

datatype BaseCategory = CPU | Motherboard | GPU | RAM | Storage | PSU | Case | Cooler

datatype AddonCategory = Monitor | Software | SSD

datatype Category = Base BaseCategory | Addon AddonCategory

definition BASE_CATEGORIES :: "BaseCategory list" where
  "BASE_CATEGORIES = [CPU, Motherboard, GPU, RAM, Storage, PSU, Case, Cooler]"

record Attributes =
  attr_socket :: "string option"
  attr_tdp :: "number option"
  attr_ramType :: "string option"
  attr_formFactor :: "string option"
  attr_pcieSlots :: "number option"
  attr_storage :: "string list option"
  attr_type :: "string option"
  attr_interface :: "string option"
  attr_wattage :: "number option"
  attr_formFactorSupport :: "string list option"
  attr_socketSupport :: "string list option"

record Product =
  product_id :: string
  name :: string
  category :: Category
  price :: number
  stock :: number
  cost :: "number option"
  attributes :: Attributes

record AddonEntry =
  entry_id :: string
  product :: Product
  qty :: number

record BuildState =
  base :: "BaseCategory \<Rightarrow> Product option"
  addons :: "AddonEntry list"

datatype DiscountType = DiscountNone | DiscountPercent | DiscountFixed

record Pricing =
  discountType :: DiscountType
  discountValue :: number
  vatEnabled :: bool
  vatPercent :: number
  showCost :: bool

subsection \<open>JavaScript operators used by the engine\<close>

text \<open>\<open>x || 0\<close> on a number: zero is falsy, every other number is truthy.\<close>

definition or0 :: "number \<Rightarrow> number" where
  "or0 x = (if x \<noteq> 0 then x else 0)"

text \<open>\<open>x || 0\<close> on an optional number: \<open>undefined\<close> is falsy too.\<close>

fun opt_or0 :: "number option \<Rightarrow> number" where
  "opt_or0 None = 0"
| "opt_or0 (Some x) = or0 x"

text \<open>Truthiness of an optional string: \<open>undefined\<close> and the empty string are falsy.\<close>

fun truthy_str :: "string option \<Rightarrow> bool" where
  "truthy_str None = False"
| "truthy_str (Some s) = (s \<noteq> [])"

text \<open>Truthiness of an optional number: \<open>undefined\<close> and zero are falsy.\<close>

fun truthy_num :: "number option \<Rightarrow> bool" where
  "truthy_num None = False"
| "truthy_num (Some x) = (x \<noteq> 0)"

text \<open>\<open>xs || []\<close>: every array is truthy, also the empty one.\<close>

fun or_empty :: "string list option \<Rightarrow> string list" where
  "or_empty None = []"
| "or_empty (Some xs) = xs"

text \<open>\<open>xs.includes(v)\<close> for a string array and an optional string: \<open>undefined\<close> is
  never an element of a string array.\<close>

fun array_includes :: "string list \<Rightarrow> string option \<Rightarrow> bool" where
  "array_includes xs None = False"
| "array_includes xs (Some s) = (s \<in> set xs)"

text \<open>\<open>${v}\<close> in a template literal, for an optional string.\<close>

fun str_of :: "string option \<Rightarrow> string" where
  "str_of None = ''undefined''"
| "str_of (Some s) = s"

text \<open>\<open>xs.join(sep)\<close>.\<close>

fun join :: "string \<Rightarrow> string list \<Rightarrow> string" where
  "join sep [] = []"
| "join sep [x] = x"
| "join sep (x # y # ys) = x @ sep @ join sep (y # ys)"

text \<open>\<open>part?.attributes?.key\<close> on an optional part.\<close>

definition attr :: "(Attributes \<Rightarrow> 'a option) \<Rightarrow> Product option \<Rightarrow> 'a option" where
  "attr key part = (case part of None \<Rightarrow> None | Some p \<Rightarrow> key (attributes p))"

section \<open>Quote summary\<close>

text \<open>The figures computed at the top of the \<open>Summary\<close> component.\<close>

record Quote =
  subtotal :: number
  discount :: number
  netBeforeVAT :: number
  vat :: number
  total :: number
  costTotal :: number
  profit :: number
  margin :: number
  missingRequired :: "BaseCategory list"

definition baseSelected :: "BuildState \<Rightarrow> (BaseCategory \<times> Product) list" where
  "baseSelected build =
     List.map_filter (\<lambda>c. case base build c of None \<Rightarrow> None | Some p \<Rightarrow> Some (c, p))
       BASE_CATEGORIES"

definition Summary :: "BuildState \<Rightarrow> Pricing \<Rightarrow> BaseCategory list \<Rightarrow> Quote" where
  "Summary build pricing required =
    (let baseTotal = foldl (\<lambda>s (c, p). s + price p) 0 (baseSelected build);
         addonTotal = foldl (\<lambda>s a. s + price (product a) * qty a) 0 (addons build);
         subtotal = baseTotal + addonTotal;
         missingRequired = filter (\<lambda>c. base build c = None) required;
         discount =
           (if discountType pricing = DiscountPercent
              then min subtotal (subtotal * or0 (discountValue pricing) / 100)
            else if discountType pricing = DiscountFixed
              then min subtotal (or0 (discountValue pricing))
            else 0);
         netBeforeVAT = max 0 (subtotal - discount);
         vat = (if vatEnabled pricing then netBeforeVAT * or0 (vatPercent pricing) / 100 else 0);
         total = netBeforeVAT + vat;
         baseCost = foldl (\<lambda>s (c, p). s + (case cost p of Some k \<Rightarrow> k | None \<Rightarrow> 0)) 0
                      (baseSelected build);
         addonCost = foldl (\<lambda>s a. s + (case cost (product a) of Some k \<Rightarrow> k * qty a | None \<Rightarrow> 0)) 0
                       (addons build);
         costTotal = baseCost + addonCost;
         profit = netBeforeVAT - costTotal;
         margin = (if netBeforeVAT > 0 then (profit / netBeforeVAT) * 100 else 0)
     in \<lparr>subtotal = subtotal, discount = discount, netBeforeVAT = netBeforeVAT, vat = vat,
         total = total, costTotal = costTotal, profit = profit, margin = margin,
         missingRequired = missingRequired\<rparr>)"

section \<open>Compatibility checker\<close>

subsection \<open>Message texts\<close>

text \<open>
  The Thai parts of the checker's messages, as the UTF-8 bytes of the source text:
  \<open>th_check\<close> is the check mark U+2714, \<open>th_mainboard\<close> "motherboard",
  \<open>th_socket_matches\<close> "sockets match", \<open>th_not_match_mainboard\<close> "does not match the
  motherboard", \<open>th_ramtype_matches\<close> "RAM types match", \<open>th_has_slot\<close> "has a slot",
  \<open>th_board_has_no_slot\<close> "this motherboard has no slot", \<open>th_for_gpu\<close> "for a graphics
  card", \<open>th_case\<close> "case", \<open>th_size_matches\<close> "sizes match", \<open>th_case_supports\<close> "the case
  supports", \<open>th_cooler\<close> "cooler", \<open>th_supports_socket\<close> "supports the socket",
  \<open>th_cooler_no_support\<close> "the cooling kit does not support the socket of",
  \<open>th_storage\<close> "storage", \<open>th_interface_matches\<close> "interfaces match",
  \<open>th_not_match_ports\<close> "does not match the ports on the motherboard", \<open>th_psu_power\<close>
  "power", \<open>th_may_not_suffice\<close> "may not be enough", \<open>th_need_at_least\<close> "needs at
  least", \<open>th_sufficient\<close> "is sufficient", \<open>th_need\<close> "needs".
\<close>

definition th_check :: string where
  "th_check =
    [CHR 0xE2, CHR 0x9C, CHR 0x94]"

definition th_mainboard :: string where
  "th_mainboard =
    [CHR 0xE0, CHR 0xB9, CHR 0x80, CHR 0xE0, CHR 0xB8, CHR 0xA1, CHR 0xE0, CHR 0xB8, CHR 0x99,
     CHR 0xE0, CHR 0xB8, CHR 0x9A, CHR 0xE0, CHR 0xB8, CHR 0xAD, CHR 0xE0, CHR 0xB8, CHR 0xA3,
     CHR 0xE0, CHR 0xB9, CHR 0x8C, CHR 0xE0, CHR 0xB8, CHR 0x94]"

definition th_socket_matches :: string where
  "th_socket_matches =
    [CHR 0xE0, CHR 0xB8, CHR 0x8B, CHR 0xE0, CHR 0xB9, CHR 0x87, CHR 0xE0, CHR 0xB8, CHR 0xAD,
     CHR 0xE0, CHR 0xB8, CHR 0x81, CHR 0xE0, CHR 0xB9, CHR 0x80, CHR 0xE0, CHR 0xB8, CHR 0x81,
     CHR 0xE0, CHR 0xB9, CHR 0x87, CHR 0xE0, CHR 0xB8, CHR 0x95, CHR 0xE0, CHR 0xB8, CHR 0x95,
     CHR 0xE0, CHR 0xB8, CHR 0xA3, CHR 0xE0, CHR 0xB8, CHR 0x87, CHR 0xE0, CHR 0xB8, CHR 0x81,
     CHR 0xE0, CHR 0xB8, CHR 0xB1, CHR 0xE0, CHR 0xB8, CHR 0x99]"

definition th_not_match_mainboard :: string where
  "th_not_match_mainboard =
    [CHR 0xE0, CHR 0xB9, CHR 0x84, CHR 0xE0, CHR 0xB8, CHR 0xA1, CHR 0xE0, CHR 0xB9, CHR 0x88,
     CHR 0xE0, CHR 0xB8, CHR 0x95, CHR 0xE0, CHR 0xB8, CHR 0xA3, CHR 0xE0, CHR 0xB8, CHR 0x87,
     CHR 0xE0, CHR 0xB8, CHR 0x81, CHR 0xE0, CHR 0xB8, CHR 0xB1, CHR 0xE0, CHR 0xB8, CHR 0x9A,
     CHR 0xE0, CHR 0xB9, CHR 0x80, CHR 0xE0, CHR 0xB8, CHR 0xA1, CHR 0xE0, CHR 0xB8, CHR 0x99,
     CHR 0xE0, CHR 0xB8, CHR 0x9A, CHR 0xE0, CHR 0xB8, CHR 0xAD, CHR 0xE0, CHR 0xB8, CHR 0xA3,
     CHR 0xE0, CHR 0xB9, CHR 0x8C, CHR 0xE0, CHR 0xB8, CHR 0x94]"

definition th_ramtype_matches :: string where
  "th_ramtype_matches =
    [CHR 0xE0, CHR 0xB8, CHR 0x8A, CHR 0xE0, CHR 0xB8, CHR 0x99, CHR 0xE0, CHR 0xB8, CHR 0xB4,
     CHR 0xE0, CHR 0xB8, CHR 0x94, CHR 0xE0, CHR 0xB9, CHR 0x81, CHR 0xE0, CHR 0xB8, CHR 0xA3,
     CHR 0xE0, CHR 0xB8, CHR 0xA1, CHR 0xE0, CHR 0xB8, CHR 0x95, CHR 0xE0, CHR 0xB8, CHR 0xA3,
     CHR 0xE0, CHR 0xB8, CHR 0x87, CHR 0xE0, CHR 0xB8, CHR 0x81, CHR 0xE0, CHR 0xB8, CHR 0xB1,
     CHR 0xE0, CHR 0xB8, CHR 0x99]"

definition th_has_slot :: string where
  "th_has_slot =
    [CHR 0xE0, CHR 0xB8, CHR 0xA1, CHR 0xE0, CHR 0xB8, CHR 0xB5, CHR 0xE0, CHR 0xB8, CHR 0xAA,
     CHR 0xE0, CHR 0xB8, CHR 0xA5, CHR 0xE0, CHR 0xB9, CHR 0x87, CHR 0xE0, CHR 0xB8, CHR 0xAD,
     CHR 0xE0, CHR 0xB8, CHR 0x95]"

definition th_board_has_no_slot :: string where
  "th_board_has_no_slot =
    [CHR 0xE0, CHR 0xB9, CHR 0x80, CHR 0xE0, CHR 0xB8, CHR 0xA1, CHR 0xE0, CHR 0xB8, CHR 0x99,
     CHR 0xE0, CHR 0xB8, CHR 0x9A, CHR 0xE0, CHR 0xB8, CHR 0xAD, CHR 0xE0, CHR 0xB8, CHR 0xA3,
     CHR 0xE0, CHR 0xB9, CHR 0x8C, CHR 0xE0, CHR 0xB8, CHR 0x94, CHR 0xE0, CHR 0xB8, CHR 0x99,
     CHR 0xE0, CHR 0xB8, CHR 0xB5, CHR 0xE0, CHR 0xB9, CHR 0x89, CHR 0xE0, CHR 0xB9, CHR 0x84,
     CHR 0xE0, CHR 0xB8, CHR 0xA1, CHR 0xE0, CHR 0xB9, CHR 0x88, CHR 0xE0, CHR 0xB8, CHR 0xA1,
     CHR 0xE0, CHR 0xB8, CHR 0xB5, CHR 0xE0, CHR 0xB8, CHR 0xAA, CHR 0xE0, CHR 0xB8, CHR 0xA5,
     CHR 0xE0, CHR 0xB9, CHR 0x87, CHR 0xE0, CHR 0xB8, CHR 0xAD, CHR 0xE0, CHR 0xB8, CHR 0x95]"

definition th_for_gpu :: string where
  "th_for_gpu =
    [CHR 0xE0, CHR 0xB8, CHR 0xAA, CHR 0xE0, CHR 0xB8, CHR 0xB3, CHR 0xE0, CHR 0xB8, CHR 0xAB,
     CHR 0xE0, CHR 0xB8, CHR 0xA3, CHR 0xE0, CHR 0xB8, CHR 0xB1, CHR 0xE0, CHR 0xB8, CHR 0x9A,
     CHR 0xE0, CHR 0xB8, CHR 0x81, CHR 0xE0, CHR 0xB8, CHR 0xB2, CHR 0xE0, CHR 0xB8, CHR 0xA3,
     CHR 0xE0, CHR 0xB9, CHR 0x8C, CHR 0xE0, CHR 0xB8, CHR 0x94, CHR 0xE0, CHR 0xB8, CHR 0x88,
     CHR 0xE0, CHR 0xB8, CHR 0xAD]"

definition th_case :: string where
  "th_case =
    [CHR 0xE0, CHR 0xB9, CHR 0x80, CHR 0xE0, CHR 0xB8, CHR 0x84, CHR 0xE0, CHR 0xB8, CHR 0xAA]"

definition th_size_matches :: string where
  "th_size_matches =
    [CHR 0xE0, CHR 0xB8, CHR 0x82, CHR 0xE0, CHR 0xB8, CHR 0x99, CHR 0xE0, CHR 0xB8, CHR 0xB2,
     CHR 0xE0, CHR 0xB8, CHR 0x94, CHR 0xE0, CHR 0xB8, CHR 0x95, CHR 0xE0, CHR 0xB8, CHR 0xA3,
     CHR 0xE0, CHR 0xB8, CHR 0x87, CHR 0xE0, CHR 0xB8, CHR 0x81, CHR 0xE0, CHR 0xB8, CHR 0xB1,
     CHR 0xE0, CHR 0xB8, CHR 0x99]"

definition th_case_supports :: string where
  "th_case_supports =
    [CHR 0xE0, CHR 0xB9, CHR 0x80, CHR 0xE0, CHR 0xB8, CHR 0x84, CHR 0xE0, CHR 0xB8, CHR 0xAA,
     CHR 0xE0, CHR 0xB8, CHR 0xA3, CHR 0xE0, CHR 0xB8, CHR 0xAD, CHR 0xE0, CHR 0xB8, CHR 0x87,
     CHR 0xE0, CHR 0xB8, CHR 0xA3, CHR 0xE0, CHR 0xB8, CHR 0xB1, CHR 0xE0, CHR 0xB8, CHR 0x9A]"

definition th_cooler :: string where
  "th_cooler =
    [CHR 0xE0, CHR 0xB8, CHR 0x84, CHR 0xE0, CHR 0xB8, CHR 0xB9, CHR 0xE0, CHR 0xB8, CHR 0xA5,
     CHR 0xE0, CHR 0xB9, CHR 0x80, CHR 0xE0, CHR 0xB8, CHR 0xA5, CHR 0xE0, CHR 0xB8, CHR 0xAD,
     CHR 0xE0, CHR 0xB8, CHR 0xA3, CHR 0xE0, CHR 0xB9, CHR 0x8C]"

definition th_supports_socket :: string where
  "th_supports_socket =
    [CHR 0xE0, CHR 0xB8, CHR 0xA3, CHR 0xE0, CHR 0xB8, CHR 0xAD, CHR 0xE0, CHR 0xB8, CHR 0x87,
     CHR 0xE0, CHR 0xB8, CHR 0xA3, CHR 0xE0, CHR 0xB8, CHR 0xB1, CHR 0xE0, CHR 0xB8, CHR 0x9A,
     CHR 0xE0, CHR 0xB8, CHR 0x8B, CHR 0xE0, CHR 0xB9, CHR 0x87, CHR 0xE0, CHR 0xB8, CHR 0xAD,
     CHR 0xE0, CHR 0xB8, CHR 0x81, CHR 0xE0, CHR 0xB9, CHR 0x80, CHR 0xE0, CHR 0xB8, CHR 0x81,
     CHR 0xE0, CHR 0xB9, CHR 0x87, CHR 0xE0, CHR 0xB8, CHR 0x95]"

definition th_cooler_no_support :: string where
  "th_cooler_no_support =
    [CHR 0xE0, CHR 0xB8, CHR 0x8A, CHR 0xE0, CHR 0xB8, CHR 0xB8, CHR 0xE0, CHR 0xB8, CHR 0x94,
     CHR 0xE0, CHR 0xB8, CHR 0xA3, CHR 0xE0, CHR 0xB8, CHR 0xB0, CHR 0xE0, CHR 0xB8, CHR 0x9A,
     CHR 0xE0, CHR 0xB8, CHR 0xB2, CHR 0xE0, CHR 0xB8, CHR 0xA2, CHR 0xE0, CHR 0xB8, CHR 0x84,
     CHR 0xE0, CHR 0xB8, CHR 0xA7, CHR 0xE0, CHR 0xB8, CHR 0xB2, CHR 0xE0, CHR 0xB8, CHR 0xA1,
     CHR 0xE0, CHR 0xB8, CHR 0xA3, CHR 0xE0, CHR 0xB9, CHR 0x89, CHR 0xE0, CHR 0xB8, CHR 0xAD,
     CHR 0xE0, CHR 0xB8, CHR 0x99, CHR 0xE0, CHR 0xB9, CHR 0x84, CHR 0xE0, CHR 0xB8, CHR 0xA1,
     CHR 0xE0, CHR 0xB9, CHR 0x88, CHR 0xE0, CHR 0xB8, CHR 0xA3, CHR 0xE0, CHR 0xB8, CHR 0xAD,
     CHR 0xE0, CHR 0xB8, CHR 0x87, CHR 0xE0, CHR 0xB8, CHR 0xA3, CHR 0xE0, CHR 0xB8, CHR 0xB1,
     CHR 0xE0, CHR 0xB8, CHR 0x9A, CHR 0xE0, CHR 0xB8, CHR 0x8B, CHR 0xE0, CHR 0xB9, CHR 0x87,
     CHR 0xE0, CHR 0xB8, CHR 0xAD, CHR 0xE0, CHR 0xB8, CHR 0x81, CHR 0xE0, CHR 0xB9, CHR 0x80,
     CHR 0xE0, CHR 0xB8, CHR 0x81, CHR 0xE0, CHR 0xB9, CHR 0x87, CHR 0xE0, CHR 0xB8, CHR 0x95]"

definition th_storage :: string where
  "th_storage =
    [CHR 0xE0, CHR 0xB8, CHR 0xAA, CHR 0xE0, CHR 0xB8, CHR 0x95, CHR 0xE0, CHR 0xB8, CHR 0xAD,
     CHR 0xE0, CHR 0xB9, CHR 0x80, CHR 0xE0, CHR 0xB8, CHR 0xA3, CHR 0xE0, CHR 0xB8, CHR 0x88]"

definition th_interface_matches :: string where
  "th_interface_matches =
    [CHR 0xE0, CHR 0xB8, CHR 0xAD, CHR 0xE0, CHR 0xB8, CHR 0xB4, CHR 0xE0, CHR 0xB8, CHR 0x99,
     CHR 0xE0, CHR 0xB9, CHR 0x80, CHR 0xE0, CHR 0xB8, CHR 0x97, CHR 0xE0, CHR 0xB8, CHR 0xAD,
     CHR 0xE0, CHR 0xB8, CHR 0xA3, CHR 0xE0, CHR 0xB9, CHR 0x8C, CHR 0xE0, CHR 0xB9, CHR 0x80,
     CHR 0xE0, CHR 0xB8, CHR 0x9F, CHR 0xE0, CHR 0xB8, CHR 0x8B, CHR 0xE0, CHR 0xB8, CHR 0x95,
     CHR 0xE0, CHR 0xB8, CHR 0xA3, CHR 0xE0, CHR 0xB8, CHR 0x87, CHR 0xE0, CHR 0xB8, CHR 0x81,
     CHR 0xE0, CHR 0xB8, CHR 0xB1, CHR 0xE0, CHR 0xB8, CHR 0x99]"

definition th_not_match_ports :: string where
  "th_not_match_ports =
    [CHR 0xE0, CHR 0xB9, CHR 0x84, CHR 0xE0, CHR 0xB8, CHR 0xA1, CHR 0xE0, CHR 0xB9, CHR 0x88,
     CHR 0xE0, CHR 0xB8, CHR 0x95, CHR 0xE0, CHR 0xB8, CHR 0xA3, CHR 0xE0, CHR 0xB8, CHR 0x87,
     CHR 0xE0, CHR 0xB8, CHR 0x81, CHR 0xE0, CHR 0xB8, CHR 0xB1, CHR 0xE0, CHR 0xB8, CHR 0x9A,
     CHR 0xE0, CHR 0xB8, CHR 0x9E, CHR 0xE0, CHR 0xB8, CHR 0xAD, CHR 0xE0, CHR 0xB8, CHR 0xA3,
     CHR 0xE0, CHR 0xB9, CHR 0x8C, CHR 0xE0, CHR 0xB8, CHR 0x95, CHR 0xE0, CHR 0xB8, CHR 0x9A,
     CHR 0xE0, CHR 0xB8, CHR 0x99, CHR 0xE0, CHR 0xB9, CHR 0x80, CHR 0xE0, CHR 0xB8, CHR 0xA1,
     CHR 0xE0, CHR 0xB8, CHR 0x99, CHR 0xE0, CHR 0xB8, CHR 0x9A, CHR 0xE0, CHR 0xB8, CHR 0xAD,
     CHR 0xE0, CHR 0xB8, CHR 0xA3, CHR 0xE0, CHR 0xB9, CHR 0x8C, CHR 0xE0, CHR 0xB8, CHR 0x94]"

definition th_psu_power :: string where
  "th_psu_power =
    [CHR 0xE0, CHR 0xB8, CHR 0x81, CHR 0xE0, CHR 0xB8, CHR 0xB3, CHR 0xE0, CHR 0xB8, CHR 0xA5,
     CHR 0xE0, CHR 0xB8, CHR 0xB1, CHR 0xE0, CHR 0xB8, CHR 0x87, CHR 0xE0, CHR 0xB9, CHR 0x84,
     CHR 0xE0, CHR 0xB8, CHR 0x9F]"

definition th_may_not_suffice :: string where
  "th_may_not_suffice =
    [CHR 0xE0, CHR 0xB8, CHR 0xAD, CHR 0xE0, CHR 0xB8, CHR 0xB2, CHR 0xE0, CHR 0xB8, CHR 0x88,
     CHR 0xE0, CHR 0xB9, CHR 0x84, CHR 0xE0, CHR 0xB8, CHR 0xA1, CHR 0xE0, CHR 0xB9, CHR 0x88,
     CHR 0xE0, CHR 0xB8, CHR 0x9E, CHR 0xE0, CHR 0xB8, CHR 0xAD]"

definition th_need_at_least :: string where
  "th_need_at_least =
    [CHR 0xE0, CHR 0xB8, CHR 0x95, CHR 0xE0, CHR 0xB9, CHR 0x89, CHR 0xE0, CHR 0xB8, CHR 0xAD,
     CHR 0xE0, CHR 0xB8, CHR 0x87, CHR 0xE0, CHR 0xB8, CHR 0x81, CHR 0xE0, CHR 0xB8, CHR 0xB2,
     CHR 0xE0, CHR 0xB8, CHR 0xA3, CHR 0xE0, CHR 0xB8, CHR 0xAD, CHR 0xE0, CHR 0xB8, CHR 0xA2,
     CHR 0xE0, CHR 0xB9, CHR 0x88, CHR 0xE0, CHR 0xB8, CHR 0xB2, CHR 0xE0, CHR 0xB8, CHR 0x87,
     CHR 0xE0, CHR 0xB8, CHR 0x99, CHR 0xE0, CHR 0xB9, CHR 0x89, CHR 0xE0, CHR 0xB8, CHR 0xAD,
     CHR 0xE0, CHR 0xB8, CHR 0xA2]"

definition th_sufficient :: string where
  "th_sufficient =
    [CHR 0xE0, CHR 0xB9, CHR 0x80, CHR 0xE0, CHR 0xB8, CHR 0x9E, CHR 0xE0, CHR 0xB8, CHR 0xB5,
     CHR 0xE0, CHR 0xB8, CHR 0xA2, CHR 0xE0, CHR 0xB8, CHR 0x87, CHR 0xE0, CHR 0xB8, CHR 0x9E,
     CHR 0xE0, CHR 0xB8, CHR 0xAD]"

definition th_need :: string where
  "th_need =
    [CHR 0xE0, CHR 0xB8, CHR 0x95, CHR 0xE0, CHR 0xB9, CHR 0x89, CHR 0xE0, CHR 0xB8, CHR 0xAD,
     CHR 0xE0, CHR 0xB8, CHR 0x87, CHR 0xE0, CHR 0xB8, CHR 0x81, CHR 0xE0, CHR 0xB8, CHR 0xB2,
     CHR 0xE0, CHR 0xB8, CHR 0xA3]"

subsection \<open>Rules\<close>

datatype Level = Ok | Warn | Error

record Note =
  level :: Level
  msg :: string

record Report =
  report_level :: Level
  report_notes :: "Note list"

definition estimateWattage :: "(BaseCategory \<Rightarrow> Product option) \<Rightarrow> number" where
  "estimateWattage parts =
    (let cpu = opt_or0 (attr attr_tdp (parts CPU));
         gpu = opt_or0 (attr attr_tdp (parts GPU))
     in cpu + gpu + 100)"

text \<open>
  \<open>checkCompatibility\<close> pushes the notes of seven rules in a fixed order. Each rule is
  one statement of the source and is embedded as the list of notes that statement pushes
  (none or one). A part is truthy exactly when it is present.
\<close>

definition socketRule :: "(BaseCategory \<Rightarrow> Product option) \<Rightarrow> Note list" where
  "socketRule parts =
    (case (parts CPU, parts Motherboard) of
       (Some cpu, Some mb) \<Rightarrow>
         [if attr_socket (attributes cpu) = attr_socket (attributes mb)
          then \<lparr>level = Ok,
                msg = ''CPU '' @ th_check @ '' '' @ th_mainboard @ '' '' @ th_check @ '' (''
                      @ th_socket_matches @ '')''\<rparr>
          else \<lparr>level = Error,
                msg = ''CPU socket ('' @ str_of (attr_socket (attributes cpu)) @ '') ''
                      @ th_not_match_mainboard @ '' ('' @ str_of (attr_socket (attributes mb))
                      @ '')''\<rparr>]
     | _ \<Rightarrow> [])"

definition ramRule :: "(BaseCategory \<Rightarrow> Product option) \<Rightarrow> Note list" where
  "ramRule parts =
    (case (parts RAM, parts Motherboard) of
       (Some ram, Some mb) \<Rightarrow>
         [if attr_type (attributes ram) = attr_ramType (attributes mb)
          then \<lparr>level = Ok,
                msg = ''RAM '' @ th_check @ '' '' @ th_mainboard @ '' '' @ th_check @ '' (''
                      @ th_ramtype_matches @ '')''\<rparr>
          else \<lparr>level = Error,
                msg = ''RAM ('' @ str_of (attr_type (attributes ram)) @ '') ''
                      @ th_not_match_mainboard @ '' ('' @ str_of (attr_ramType (attributes mb))
                      @ '')''\<rparr>]
     | _ \<Rightarrow> [])"

definition pcieRule :: "(BaseCategory \<Rightarrow> Product option) \<Rightarrow> Note list" where
  "pcieRule parts =
    (case (parts GPU, parts Motherboard) of
       (Some gpu, Some mb) \<Rightarrow>
         [if truthy_num (attr_pcieSlots (attributes mb))
          then \<lparr>level = Ok,
                msg = ''GPU '' @ th_check @ '' '' @ th_mainboard @ '' '' @ th_check @ '' (''
                      @ th_has_slot @ '' PCIe)''\<rparr>
          else \<lparr>level = Error,
                msg = th_board_has_no_slot @ '' PCIe '' @ th_for_gpu\<rparr>]
     | _ \<Rightarrow> [])"

definition caseRule :: "(BaseCategory \<Rightarrow> Product option) \<Rightarrow> Note list" where
  "caseRule parts =
    (case (parts Case, parts Motherboard) of
       (Some pcCase, Some mb) \<Rightarrow>
         (let ok = array_includes (or_empty (attr_formFactorSupport (attributes pcCase)))
                     (attr_formFactor (attributes mb))
          in [if ok
              then \<lparr>level = Ok,
                    msg = th_case @ '' '' @ th_check @ '' '' @ th_mainboard @ '' '' @ th_check
                          @ '' ('' @ th_size_matches @ '')''\<rparr>
              else \<lparr>level = Error,
                    msg = th_case_supports @ '' ''
                          @ (let j = join '', '' (or_empty (attr_formFactorSupport (attributes pcCase)))
                             in if j \<noteq> [] then j else ''-'')
                          @ '' '' @ th_not_match_mainboard @ '' (''
                          @ str_of (attr_formFactor (attributes mb)) @ '')''\<rparr>])
     | _ \<Rightarrow> [])"

definition coolerRule :: "(BaseCategory \<Rightarrow> Product option) \<Rightarrow> Note list" where
  "coolerRule parts =
    (case (parts Cooler, parts CPU) of
       (Some cooler, Some cpu) \<Rightarrow>
         (let ok = array_includes (or_empty (attr_socketSupport (attributes cooler)))
                     (attr_socket (attributes cpu))
          in [if ok
              then \<lparr>level = Ok,
                    msg = th_cooler @ '' '' @ th_check @ '' CPU '' @ th_check @ '' (''
                          @ th_supports_socket @ '')''\<rparr>
              else \<lparr>level = Error,
                    msg = th_cooler_no_support @ '' CPU (''
                          @ str_of (attr_socket (attributes cpu)) @ '')''\<rparr>])
     | _ \<Rightarrow> [])"

text \<open>The storage rule is the only one with an inner guard: both attributes must be
  truthy (a non-empty interface string, a present port array).\<close>

definition storageRule :: "(BaseCategory \<Rightarrow> Product option) \<Rightarrow> Note list" where
  "storageRule parts =
    (case (parts Storage, parts Motherboard) of
       (Some storage, Some mb) \<Rightarrow>
         (if truthy_str (attr_interface (attributes storage)) \<and> attr_storage (attributes mb) \<noteq> None
          then (let ok = array_includes (or_empty (attr_storage (attributes mb)))
                           (attr_interface (attributes storage))
                in [if ok
                    then \<lparr>level = Ok,
                          msg = th_storage @ '' '' @ th_check @ '' '' @ th_mainboard @ '' ''
                                @ th_check @ '' ('' @ th_interface_matches @ '')''\<rparr>
                    else \<lparr>level = Error,
                          msg = th_storage @ '' ('' @ str_of (attr_interface (attributes storage))
                                @ '') '' @ th_not_match_ports @ '' (''
                                @ join '', '' (or_empty (attr_storage (attributes mb))) @ '')''\<rparr>])
          else [])
     | _ \<Rightarrow> [])"

text \<open>The PSU rule renders two numbers into its message; \<open>num_str\<close> stands for the
  number-to-string conversion of template literals.\<close>

definition psuRule :: "(number \<Rightarrow> string) \<Rightarrow> (BaseCategory \<Rightarrow> Product option) \<Rightarrow> Note list" where
  "psuRule num_str parts =
    (case parts PSU of
       Some psu \<Rightarrow>
         (let need = estimateWattage parts;
              has = opt_or0 (attr_wattage (attributes psu))
          in [if has < need
              then \<lparr>level = Warn,
                    msg = th_psu_power @ '' PSU '' @ num_str has @ ''W '' @ th_may_not_suffice
                          @ '' '' @ th_need_at_least @ '' ~'' @ num_str need @ ''W''\<rparr>
              else \<lparr>level = Ok,
                    msg = ''PSU '' @ th_sufficient @ '' ('' @ th_need @ '' ~'' @ num_str need
                          @ ''W)''\<rparr>])
     | None \<Rightarrow> [])"

definition checkCompatibility ::
  "(number \<Rightarrow> string) \<Rightarrow> (BaseCategory \<Rightarrow> Product option) \<Rightarrow> Report" where
  "checkCompatibility num_str parts =
    (let notes = socketRule parts @ ramRule parts @ pcieRule parts @ caseRule parts
                 @ coolerRule parts @ storageRule parts @ psuRule num_str parts;
         level = (if list_ex (\<lambda>n. level n = Error) notes then Error
                  else if list_ex (\<lambda>n. level n = Warn) notes then Warn
                  else Ok)
     in \<lparr>report_level = level, report_notes = notes\<rparr>)"

section \<open>Attribute filters\<close>

record AttrFilters =
  socket :: "string option"
  ramType :: "string option"
  formFactor :: "string option"
  storageInterface :: "string option"
  minPSUWatt :: "number option"
  coolerSocket :: "string option"

text \<open>The empty filter object \<open>{}\<close>.\<close>

definition no_filters :: AttrFilters where
  "no_filters = \<lparr>socket = None, ramType = None, formFactor = None, storageInterface = None,
     minPSUWatt = None, coolerSocket = None\<rparr>"

text \<open>
  The predicate passed to \<open>items.filter\<close> in \<open>applyAttrFilters\<close>: eight guarded
  \<open>return false\<close> statements in sequence, then \<open>return true\<close>. A string constraint is
  active when truthy; \<open>minPSUWatt\<close> is active when it is a number.
\<close>

definition keeps :: "BaseCategory \<Rightarrow> AttrFilters \<Rightarrow> Product \<Rightarrow> bool" where
  "keeps cat f p =
    (let a = attributes p in
     if truthy_str (socket f) \<and> ((cat = CPU \<and> attr_socket a \<noteq> socket f)
                                 \<or> (cat = Motherboard \<and> attr_socket a \<noteq> socket f)) then False
     else if truthy_str (ramType f) \<and> cat = Motherboard \<and> attr_ramType a \<noteq> ramType f then False
     else if truthy_str (formFactor f) \<and> cat = Motherboard \<and> attr_formFactor a \<noteq> formFactor f
       then False
     else if truthy_str (formFactor f) \<and> cat = Case
             \<and> \<not> array_includes (or_empty (attr_formFactorSupport a)) (formFactor f) then False
     else if truthy_str (storageInterface f) \<and> cat = Storage
             \<and> attr_interface a \<noteq> storageInterface f then False
     else if truthy_str (storageInterface f) \<and> cat = Motherboard
             \<and> \<not> array_includes (or_empty (attr_storage a)) (storageInterface f) then False
     else if (case minPSUWatt f of
                Some w \<Rightarrow> cat = PSU \<and> opt_or0 (attr_wattage a) < w
              | None \<Rightarrow> False) then False
     else if truthy_str (coolerSocket f) \<and> cat = Cooler
             \<and> \<not> array_includes (or_empty (attr_socketSupport a)) (coolerSocket f) then False
     else True)"

definition applyAttrFilters :: "BaseCategory \<Rightarrow> Product list \<Rightarrow> AttrFilters \<Rightarrow> Product list" where
  "applyAttrFilters cat items f = (if items = [] then items else filter (keeps cat f) items)"

text \<open>
  Smart Sync. \<open>next\<close> starts as a copy of \<open>current\<close> and is assigned field by field; every
  binding of \<open>next\<close> below is one \<open>if\<close> statement of the source, in order. The parameter
  \<open>bas\<close> is the source's \<open>base\<close>, the chosen base parts.
\<close>

definition deriveFiltersFromSelection ::
  "(BaseCategory \<Rightarrow> Product option) \<Rightarrow> AttrFilters \<Rightarrow> AttrFilters" where
  "deriveFiltersFromSelection bas current =
    (let next = current;
         cpu = bas CPU; mb = bas Motherboard; storage = bas Storage; psu = bas PSU;
         next = (if truthy_str (attr attr_socket cpu)
                 then next\<lparr>socket := attr attr_socket cpu\<rparr> else next);
         next = (if \<not> truthy_str (attr attr_socket cpu) \<and> truthy_str (attr attr_socket mb)
                 then next\<lparr>socket := attr attr_socket mb\<rparr> else next);
         next = (if truthy_str (attr attr_ramType mb)
                 then next\<lparr>ramType := attr attr_ramType mb\<rparr> else next);
         next = (if truthy_str (attr attr_formFactor mb)
                 then next\<lparr>formFactor := attr attr_formFactor mb\<rparr> else next);
         next = (if truthy_str (attr attr_interface storage)
                 then next\<lparr>storageInterface := attr attr_interface storage\<rparr> else next);
         next = (if \<not> truthy_str (attr attr_interface storage)
                 then (case attr attr_storage mb of
                         Some (s # ss) \<Rightarrow> next\<lparr>storageInterface := Some s\<rparr>
                       | _ \<Rightarrow> next)
                 else next);
         next = (if truthy_str (attr attr_socket cpu)
                 then next\<lparr>coolerSocket := attr attr_socket cpu\<rparr> else next);
         next = (if psu \<noteq> None
                 then next\<lparr>minPSUWatt := Some (max (estimateWattage bas) 0)\<rparr> else next)
     in next)"

section \<open>Selection handlers\<close>

text \<open>
  The handlers of the \<open>App\<close> component that update the build state; each is the
  function passed to \<open>setBuild\<close>, from the previous state to the next. The identifier
  that \<open>uid()\<close> draws for a new add-on entry is a parameter.
\<close>

definition emptyBuild :: BuildState where
  "emptyBuild = \<lparr>base = Map.empty, addons = []\<rparr>"

definition selectBase :: "BaseCategory \<Rightarrow> Product option \<Rightarrow> BuildState \<Rightarrow> BuildState" where
  "selectBase cat p prev = prev\<lparr>base := (base prev)(cat := p)\<rparr>"

definition addAddon :: "string \<Rightarrow> Product \<Rightarrow> number \<Rightarrow> BuildState \<Rightarrow> BuildState" where
  "addAddon uid p q prev =
    (case find (\<lambda>a. product_id (product a) = product_id p) (addons prev) of
       Some existing \<Rightarrow>
         prev\<lparr>addons := map (\<lambda>a. if product_id (product a) = product_id p
                                   then a\<lparr>qty := qty a + q\<rparr> else a) (addons prev)\<rparr>
     | None \<Rightarrow> prev\<lparr>addons := addons prev @ [\<lparr>entry_id = uid, product = p, qty = q\<rparr>]\<rparr>)"

definition updateAddonQty :: "string \<Rightarrow> number \<Rightarrow> BuildState \<Rightarrow> BuildState" where
  "updateAddonQty i q prev =
     prev\<lparr>addons := map (\<lambda>a. if entry_id a = i then a\<lparr>qty := q\<rparr> else a) (addons prev)\<rparr>"

definition removeAddon :: "string \<Rightarrow> BuildState \<Rightarrow> BuildState" where
  "removeAddon i prev = prev\<lparr>addons := filter (\<lambda>a. entry_id a \<noteq> i) (addons prev)\<rparr>"

definition resetSpec :: BuildState where
  "resetSpec = emptyBuild"

text \<open>
  The two buttons of the global search dialog, which call \<open>setBuild\<close> inline: a base
  part replaces the part of its category, any other product is appended as a new add-on
  entry with quantity 1.
\<close>

definition searchPutBase :: "BaseCategory \<Rightarrow> Product \<Rightarrow> BuildState \<Rightarrow> BuildState" where
  "searchPutBase cat p prev = prev\<lparr>base := (base prev)(cat \<mapsto> p)\<rparr>"

definition searchAddOption :: "string \<Rightarrow> Product \<Rightarrow> BuildState \<Rightarrow> BuildState" where
  "searchAddOption uid p prev =
     prev\<lparr>addons := addons prev @ [\<lparr>entry_id = uid, product = p, qty = 1\<rparr>]\<rparr>"

text \<open>The invariant of the data model: at most one add-on entry per product id.\<close>

definition addons_unique :: "BuildState \<Rightarrow> bool" where
  "addons_unique b = distinct (map (\<lambda>a. product_id (product a)) (addons b))"

section \<open>Sample data\<close>

text \<open>Concrete products, selections and configurations at which the results below are
  evaluated. \<open>no_attributes\<close> is the empty attribute bag \<open>{}\<close>.\<close>

definition no_attributes :: Attributes where
  "no_attributes = \<lparr>attr_socket = None, attr_tdp = None, attr_ramType = None,
     attr_formFactor = None, attr_pcieSlots = None, attr_storage = None, attr_type = None,
     attr_interface = None, attr_wattage = None, attr_formFactorSupport = None,
     attr_socketSupport = None\<rparr>"

definition quote_gpu :: Product where
  "quote_gpu = \<lparr>product_id = ''g1'', name = ''MSI GTX 1660 SUPER'', category = Base GPU,
     price = 6990, stock = 5, cost = Some 6100,
     attributes = no_attributes\<lparr>attr_tdp := Some 125, attr_interface := Some ''PCIe''\<rparr>\<rparr>"

definition quote_software :: Product where
  "quote_software = \<lparr>product_id = ''s1'', name = ''Office'', category = Addon Software,
     price = 1505, stock = 30, cost = None,
     attributes = no_attributes\<rparr>"

definition quote_build :: BuildState where
  "quote_build = \<lparr>base = [GPU \<mapsto> quote_gpu],
     addons = [\<lparr>entry_id = ''e1'', product = quote_software, qty = 2\<rparr>]\<rparr>"

definition quote_pricing :: Pricing where
  "quote_pricing = \<lparr>discountType = DiscountPercent, discountValue = 10, vatEnabled = True,
     vatPercent = 7, showCost = True\<rparr>"

definition plain_pricing :: Pricing where
  "plain_pricing = \<lparr>discountType = DiscountNone, discountValue = 0, vatEnabled = False,
     vatPercent = 7, showCost = False\<rparr>"

definition cost_monitor :: Product where
  "cost_monitor = \<lparr>product_id = ''m1'', name = ''AOC 24G2'', category = Addon Monitor,
     price = 4490, stock = 10, cost = Some 3800, attributes = no_attributes\<rparr>"

definition cost_build :: BuildState where
  "cost_build = \<lparr>base = Map.empty,
     addons = [\<lparr>entry_id = ''e1'', product = cost_monitor, qty = 2\<rparr>]\<rparr>"

text \<open>The cost total in the words of the specification: the sum of the cost values of the
  chosen parts and of the add-ons, a missing cost counting as 0.\<close>

definition spec_costTotal :: "BuildState \<Rightarrow> number" where
  "spec_costTotal build =
     (\<Sum>c\<leftarrow>BASE_CATEGORIES. case base build c of
                              None \<Rightarrow> 0
                            | Some p \<Rightarrow> (case cost p of Some k \<Rightarrow> k | None \<Rightarrow> 0))
   + (\<Sum>a\<leftarrow>addons build. case cost (product a) of Some k \<Rightarrow> k | None \<Rightarrow> 0)"

text \<open>A number-to-string conversion for the examples: the decimal digits of an
  integer-valued number, as JavaScript prints integers of ordinary size.\<close>

function nat_digits :: "nat \<Rightarrow> string" where
  "nat_digits n =
     (if n < 10 then [''0123456789'' ! n] else nat_digits (n div 10) @ [''0123456789'' ! (n mod 10)])"
  by pat_completeness auto
termination
  by (relation "measure id") auto

declare nat_digits.simps [simp del]

definition decimal :: "number \<Rightarrow> string" where
  "decimal x = (if x < 0 then ''-'' else []) @ nat_digits (nat \<lfloor>\<bar>x\<bar>\<rfloor>)"

definition cpu_ryzen :: Product where
  "cpu_ryzen = \<lparr>product_id = ''c1'', name = ''AMD Ryzen 5 7600'', category = Base CPU,
     price = 7490, stock = 8, cost = Some 6100,
     attributes = no_attributes\<lparr>attr_socket := Some ''AM5'', attr_tdp := Some 65\<rparr>\<rparr>"

definition mb_b650 :: Product where
  "mb_b650 = \<lparr>product_id = ''b1'', name = ''ASUS TUF B650-PLUS'', category = Base Motherboard,
     price = 7290, stock = 6, cost = Some 6100,
     attributes = no_attributes\<lparr>attr_socket := Some ''AM5'', attr_ramType := Some ''DDR5'',
       attr_formFactor := Some ''ATX'', attr_pcieSlots := Some 2,
       attr_storage := Some [''M.2 NVMe'', ''SATA'']\<rparr>\<rparr>"

definition mb_b760 :: Product where
  "mb_b760 = \<lparr>product_id = ''b2'', name = ''MSI PRO B760M-A'', category = Base Motherboard,
     price = 4990, stock = 9, cost = Some 4100,
     attributes = no_attributes\<lparr>attr_socket := Some ''LGA1700'', attr_ramType := Some ''DDR5'',
       attr_formFactor := Some ''mATX'', attr_pcieSlots := Some 2,
       attr_storage := Some [''M.2 NVMe'', ''SATA'']\<rparr>\<rparr>"

definition psu_rm750 :: Product where
  "psu_rm750 = \<lparr>product_id = ''u1'', name = ''Corsair RM750'', category = Base PSU,
     price = 3290, stock = 7, cost = Some 2800,
     attributes = no_attributes\<lparr>attr_wattage := Some 750\<rparr>\<rparr>"

definition matching_parts :: "BaseCategory \<Rightarrow> Product option" where
  "matching_parts = [CPU \<mapsto> cpu_ryzen, Motherboard \<mapsto> mb_b650]"

definition mismatched_parts :: "BaseCategory \<Rightarrow> Product option" where
  "mismatched_parts = [CPU \<mapsto> cpu_ryzen, Motherboard \<mapsto> mb_b760]"

definition psu_only_parts :: "BaseCategory \<Rightarrow> Product option" where
  "psu_only_parts = [PSU \<mapsto> psu_rm750]"

definition ram_ddr5 :: Product where
  "ram_ddr5 = \<lparr>product_id = ''r1'', name = ''Kingston Fury 16GB DDR5'', category = Base RAM,
     price = 2190, stock = 15, cost = Some 1850,
     attributes = no_attributes\<lparr>attr_type := Some ''DDR5''\<rparr>\<rparr>"

definition ram_ddr4 :: Product where
  "ram_ddr4 = \<lparr>product_id = ''r2'', name = ''Corsair Vengeance 32GB DDR4'', category = Base RAM,
     price = 2690, stock = 10, cost = Some 2300,
     attributes = no_attributes\<lparr>attr_type := Some ''DDR4''\<rparr>\<rparr>"

definition mb_ddr4 :: Product where
  "mb_ddr4 = \<lparr>product_id = ''b3'', name = ''DDR4 board'', category = Base Motherboard,
     price = 2990, stock = 2, cost = None,
     attributes = no_attributes\<lparr>attr_socket := Some ''AM5'', attr_ramType := Some ''DDR4'',
       attr_formFactor := Some ''ATX'', attr_pcieSlots := Some 1,
       attr_storage := Some [''M.2 NVMe'']\<rparr>\<rparr>"

definition mb_bare :: Product where
  "mb_bare = \<lparr>product_id = ''b4'', name = ''Unnamed'', category = Base Motherboard,
     price = 1000, stock = 1, cost = None, attributes = no_attributes\<rparr>"

definition psu_bare :: Product where
  "psu_bare = \<lparr>product_id = ''u2'', name = ''Unnamed'', category = Base PSU,
     price = 900, stock = 1, cost = None, attributes = no_attributes\<rparr>"

text \<open>The filters that Smart Sync derives from the chosen motherboard \<open>mb_b650\<close> alone, and
  a filter set in which only \<open>minPSUWatt\<close> is set, to 0.\<close>

definition board_parts :: "BaseCategory \<Rightarrow> Product option" where
  "board_parts = [Motherboard \<mapsto> mb_b650]"

definition board_filters :: AttrFilters where
  "board_filters = deriveFiltersFromSelection board_parts no_filters"

definition zero_watt_filters :: AttrFilters where
  "zero_watt_filters = no_filters\<lparr>minPSUWatt := Some 0\<rparr>"

definition two_addons_build :: BuildState where
  "two_addons_build = \<lparr>base = [PSU \<mapsto> psu_rm750],
     addons = [\<lparr>entry_id = ''e1'', product = cost_monitor, qty = 2\<rparr>,
               \<lparr>entry_id = ''e2'', product = quote_software, qty = 1\<rparr>]\<rparr>"

section \<open>Properties of the quote summary\<close>

lemma foldl_add_sum_list:
  fixes a :: "'a::comm_monoid_add"
  shows "foldl (\<lambda>s x. s + g x) a xs = a + sum_list (map g xs)"
  by (induction xs arbitrary: a) (simp_all add: add.assoc)

lemma UNIV_BaseCategory: "UNIV = set BASE_CATEGORIES"
proof -
  have "c \<in> set BASE_CATEGORIES" for c
    by (cases c) (simp_all add: BASE_CATEGORIES_def)
  then show ?thesis by blast
qed

lemma distinct_BASE_CATEGORIES: "distinct BASE_CATEGORIES"
  by (simp add: BASE_CATEGORIES_def)

lemma sum_baseSelected:
  fixes g :: "Product \<Rightarrow> number"
  shows "sum_list (map (\<lambda>(c, p). g p) (baseSelected build)) =
         (\<Sum>c | base build c \<noteq> None. g (the (base build c)))"
proof -
  let ?P = "\<lambda>c. base build c \<noteq> None"
  have "map (\<lambda>(c, p). g p) (baseSelected build) =
        map (\<lambda>c. g (the (base build c))) (filter ?P BASE_CATEGORIES)"
    unfolding baseSelected_def List.map_filter_def
    by (auto split: option.splits intro!: filter_cong)
  moreover have "distinct (filter ?P BASE_CATEGORIES)"
    using distinct_BASE_CATEGORIES by simp
  moreover have "set (filter ?P BASE_CATEGORIES) = {c. ?P c}"
    using UNIV_BaseCategory by auto
  ultimately show ?thesis
    by (simp add: sum_list_distinct_conv_sum_set)
qed

lemma foldl_add_sum_list_pair:
  fixes a :: "'a::comm_monoid_add"
  shows "foldl (\<lambda>s (c, p). s + g p) a xs = a + sum_list (map (\<lambda>(c, p). g p) xs)"
  by (induction xs arbitrary: a) (auto simp: add.assoc)

lemma foldl_baseSelected:
  fixes g :: "Product \<Rightarrow> number"
  shows "foldl (\<lambda>s (c, p). s + g p) 0 (baseSelected build) =
         (\<Sum>c | base build c \<noteq> None. g (the (base build c)))"
  by (simp add: foldl_add_sum_list_pair sum_baseSelected)

lemma or0_id: "or0 x = x"
  by (simp add: or0_def)

lemma subtotal_Summary:
  "subtotal (Summary build pricing required) =
     (\<Sum>c | base build c \<noteq> None. price (the (base build c))) +
     (\<Sum>a\<leftarrow>addons build. price (product a) * qty a)"
  by (simp add: Summary_def Let_def foldl_baseSelected foldl_add_sum_list)


lemma discount_Summary:
  "discount (Summary build pricing required) =
     (case discountType pricing of
        DiscountNone \<Rightarrow> 0
      | DiscountPercent \<Rightarrow> min (subtotal (Summary build pricing required))
          (subtotal (Summary build pricing required) * discountValue pricing / 100)
      | DiscountFixed \<Rightarrow> min (subtotal (Summary build pricing required)) (discountValue pricing))"
  by (cases "discountType pricing") (simp_all add: Summary_def Let_def or0_id)

lemma netBeforeVAT_Summary:
  "netBeforeVAT (Summary build pricing required) =
     max 0 (subtotal (Summary build pricing required) - discount (Summary build pricing required))"
  by (simp add: Summary_def Let_def)

lemma vat_Summary:
  "vat (Summary build pricing required) =
     (if vatEnabled pricing
      then netBeforeVAT (Summary build pricing required) * vatPercent pricing / 100 else 0)"
  by (simp add: Summary_def Let_def or0_id)

lemma total_Summary:
  "total (Summary build pricing required) =
     netBeforeVAT (Summary build pricing required) + vat (Summary build pricing required)"
  by (simp add: Summary_def Let_def)

lemma subtotal_nonneg:
  assumes b: "\<And>c p. base build c = Some p \<Longrightarrow> 0 \<le> price p"
    and a: "\<And>a. a \<in> set (addons build) \<Longrightarrow> 0 \<le> price (product a) \<and> 0 \<le> qty a"
  shows "0 \<le> subtotal (Summary build pricing required)"
proof -
  have "0 \<le> (\<Sum>c | base build c \<noteq> None. price (the (base build c)))"
    by (rule sum_nonneg) (use b in auto)
  moreover have "0 \<le> (\<Sum>a\<leftarrow>addons build. price (product a) * qty a)"
    by (rule sum_list_nonneg) (use a in auto)
  ultimately show ?thesis
    by (simp add: subtotal_Summary)
qed

text \<open>
  C1. For every selection and pricing configuration: the subtotal is the sum of the chosen
  base parts' prices plus the sum over the add-ons of price times quantity; the discount is
  0 for type none, \<open>min subtotal (subtotal * discountValue / 100)\<close> for percent and
  \<open>min subtotal discountValue\<close> for fixed, so it never exceeds the subtotal (for type none
  this uses that prices and quantities of a selection are not negative); the net before tax
  is \<open>max 0 (subtotal - discount)\<close>; the tax is \<open>net * vatPercent / 100\<close> when VAT is
  enabled and 0 otherwise; the total is net plus tax. With subtotal 10000, a 10 percent
  discount and 7 percent VAT: discount 1000, net 9000, tax 630, total 9630.
\<close>

theorem quote_arithmetic:
  "(let q = Summary build pricing required in
     subtotal q = (\<Sum>c | base build c \<noteq> None. price (the (base build c)))
                + (\<Sum>a\<leftarrow>addons build. price (product a) * qty a)
   \<and> discount q = (case discountType pricing of
                     DiscountNone \<Rightarrow> 0
                   | DiscountPercent \<Rightarrow> min (subtotal q) (subtotal q * discountValue pricing / 100)
                   | DiscountFixed \<Rightarrow> min (subtotal q) (discountValue pricing))
   \<and> (discountType pricing \<noteq> DiscountNone \<longrightarrow> discount q \<le> subtotal q)
   \<and> ((\<forall>c p. base build c = Some p \<longrightarrow> 0 \<le> price p)
        \<and> (\<forall>a \<in> set (addons build). 0 \<le> price (product a) \<and> 0 \<le> qty a)
        \<longrightarrow> discount q \<le> subtotal q)
   \<and> netBeforeVAT q = max 0 (subtotal q - discount q)
   \<and> vat q = (if vatEnabled pricing then netBeforeVAT q * vatPercent pricing / 100 else 0)
   \<and> total q = netBeforeVAT q + vat q
   \<and> (subtotal q = 10000 \<and> discountType pricing = DiscountPercent \<and> discountValue pricing = 10
        \<and> vatEnabled pricing \<and> vatPercent pricing = 7
        \<longrightarrow> discount q = 1000 \<and> netBeforeVAT q = 9000 \<and> vat q = 630 \<and> total q = 9630))"
proof -
  let ?q = "Summary build pricing required"
  have d: "discount ?q = (case discountType pricing of
                     DiscountNone \<Rightarrow> 0
                   | DiscountPercent \<Rightarrow> min (subtotal ?q) (subtotal ?q * discountValue pricing / 100)
                   | DiscountFixed \<Rightarrow> min (subtotal ?q) (discountValue pricing))"
    by (rule discount_Summary)
  have le1: "discount ?q \<le> subtotal ?q" if "discountType pricing \<noteq> DiscountNone"
    using that d by (cases "discountType pricing") simp_all
  have le2: "discount ?q \<le> subtotal ?q"
    if "\<forall>c p. base build c = Some p \<longrightarrow> 0 \<le> price p"
      and "\<forall>a \<in> set (addons build). 0 \<le> price (product a) \<and> 0 \<le> qty a"
  proof (cases "discountType pricing = DiscountNone")
    case True
    have "0 \<le> subtotal ?q"
      by (rule subtotal_nonneg) (use that in auto)
    with True d show ?thesis by simp
  next
    case False
    then show ?thesis by (rule le1)
  qed
  have ex: "discount ?q = 1000 \<and> netBeforeVAT ?q = 9000 \<and> vat ?q = 630 \<and> total ?q = 9630"
    if "subtotal ?q = 10000" "discountType pricing = DiscountPercent" "discountValue pricing = 10"
       "vatEnabled pricing" "vatPercent pricing = 7"
  proof -
    have 1: "discount ?q = 1000" using d that by simp
    have 2: "netBeforeVAT ?q = 9000" using netBeforeVAT_Summary [of build pricing required] 1 that by simp
    have 3: "vat ?q = 630" using vat_Summary [of build pricing required] 2 that by simp
    have 4: "total ?q = 9630" using total_Summary [of build pricing required] 2 3 by simp
    from 1 2 3 4 show ?thesis by simp
  qed
  show ?thesis
    unfolding Let_def
    using subtotal_Summary [of build pricing required] d le1 le2
      netBeforeVAT_Summary [of build pricing required] vat_Summary [of build pricing required]
      total_Summary [of build pricing required] ex
    by blast
qed

lemma quote_build_subtotal: "subtotal (Summary quote_build quote_pricing []) = 10000"
  by (simp add: Summary_def Let_def baseSelected_def BASE_CATEGORIES_def List.map_filter_def
      quote_build_def quote_gpu_def quote_software_def)

theorem quote_arithmetic_witness:
  "subtotal (Summary quote_build quote_pricing []) = 10000
   \<and> discount (Summary quote_build quote_pricing []) = 1000
   \<and> discount (Summary quote_build quote_pricing []) \<le> subtotal (Summary quote_build quote_pricing [])
   \<and> netBeforeVAT (Summary quote_build quote_pricing []) = 9000
   \<and> vat (Summary quote_build quote_pricing []) = 630
   \<and> total (Summary quote_build quote_pricing []) = 9630
   \<and> discount (Summary quote_build plain_pricing []) = 0
   \<and> discount (Summary quote_build plain_pricing []) \<le> subtotal (Summary quote_build plain_pricing [])"
proof -
  have p: "discountType quote_pricing = DiscountPercent" "discountValue quote_pricing = 10"
    "vatEnabled quote_pricing" "vatPercent quote_pricing = 7"
    by (simp_all add: quote_pricing_def)
  have ne: "discountType quote_pricing \<noteq> DiscountNone"
    by (simp add: quote_pricing_def)
  have 1: "subtotal (Summary quote_build quote_pricing []) = 10000
   \<and> discount (Summary quote_build quote_pricing []) = 1000
   \<and> discount (Summary quote_build quote_pricing []) \<le> subtotal (Summary quote_build quote_pricing [])
   \<and> netBeforeVAT (Summary quote_build quote_pricing []) = 9000
   \<and> vat (Summary quote_build quote_pricing []) = 630
   \<and> total (Summary quote_build quote_pricing []) = 9630"
    using quote_arithmetic [of quote_build quote_pricing "[]"] quote_build_subtotal p ne
    unfolding Let_def by blast
  have b: "\<forall>c p. base quote_build c = Some p \<longrightarrow> 0 \<le> price p"
    by (simp add: quote_build_def quote_gpu_def)
  have a: "\<forall>a \<in> set (addons quote_build). 0 \<le> price (product a) \<and> 0 \<le> qty a"
    by (simp add: quote_build_def quote_software_def)
  have n: "discountType plain_pricing = DiscountNone"
    by (simp add: plain_pricing_def)
  have 2: "discount (Summary quote_build plain_pricing []) = 0"
    using quote_arithmetic [of quote_build plain_pricing "[]"] n
    unfolding Let_def by simp
  have 3: "discount (Summary quote_build plain_pricing []) \<le> subtotal (Summary quote_build plain_pricing [])"
    using quote_arithmetic [of quote_build plain_pricing "[]"] a b
    unfolding Let_def by blast
  from 1 2 3 show ?thesis by simp
qed

lemma costTotal_Summary:
  "costTotal (Summary build pricing required) =
     (\<Sum>c | base build c \<noteq> None. case cost (the (base build c)) of Some k \<Rightarrow> k | None \<Rightarrow> 0) +
     (\<Sum>a\<leftarrow>addons build. (case cost (product a) of Some k \<Rightarrow> k | None \<Rightarrow> 0) * qty a)"
proof -
  have "(\<Sum>a\<leftarrow>addons build. case cost (product a) of Some k \<Rightarrow> k * qty a | None \<Rightarrow> 0) =
        (\<Sum>a\<leftarrow>addons build. (case cost (product a) of Some k \<Rightarrow> k | None \<Rightarrow> 0) * qty a)"
    by (rule arg_cong [where f = sum_list], rule map_cong) (auto split: option.splits)
  then show ?thesis
    by (simp add: Summary_def Let_def foldl_baseSelected foldl_add_sum_list)
qed

lemma profit_Summary:
  "profit (Summary build pricing required) =
     netBeforeVAT (Summary build pricing required) - costTotal (Summary build pricing required)"
  by (simp add: Summary_def Let_def)

lemma margin_Summary:
  "margin (Summary build pricing required) =
     (if netBeforeVAT (Summary build pricing required) > 0
      then profit (Summary build pricing required) / netBeforeVAT (Summary build pricing required) * 100
      else 0)"
  by (simp add: Summary_def Let_def)

lemma cost_build_figures:
  "costTotal (Summary cost_build quote_pricing []) = 7600"
  "netBeforeVAT (Summary cost_build quote_pricing []) = 8082"
  "spec_costTotal cost_build = 3800"
  by (simp_all add: Summary_def Let_def baseSelected_def BASE_CATEGORIES_def List.map_filter_def
      cost_build_def cost_monitor_def quote_pricing_def spec_costTotal_def or0_def)

text \<open>
  C8, as stated, fails: the cost total is not the plain sum of the cost values. For one
  add-on with cost 3800 and quantity 2 the code gives 7600, the sum of cost values is 3800.
\<close>

theorem cost_total_counterexample:
  "costTotal (Summary cost_build quote_pricing []) \<noteq> spec_costTotal cost_build"
  by (simp add: cost_build_figures)

text \<open>
  C8, amended. The cost total is the sum of the chosen base parts' costs plus the sum over
  the add-ons of cost times quantity, a missing cost counting as 0; the profit is the net
  before tax minus the cost total; the margin is \<open>profit / net * 100\<close> when the net is
  positive and 0 otherwise. The figures are computed whatever \<open>showCost\<close> is.
\<close>

theorem cost_and_margin:
  "(let q = Summary build pricing required in
     costTotal q =
         (\<Sum>c | base build c \<noteq> None. case cost (the (base build c)) of Some k \<Rightarrow> k | None \<Rightarrow> 0)
       + (\<Sum>a\<leftarrow>addons build. (case cost (product a) of Some k \<Rightarrow> k | None \<Rightarrow> 0) * qty a)
   \<and> profit q = netBeforeVAT q - costTotal q
   \<and> margin q = (if netBeforeVAT q > 0 then profit q / netBeforeVAT q * 100 else 0))"
  unfolding Let_def
  using costTotal_Summary [of build pricing required] profit_Summary [of build pricing required]
    margin_Summary [of build pricing required]
  by blast

theorem cost_and_margin_witness:
  "costTotal (Summary cost_build quote_pricing []) = 3800 * 2
   \<and> profit (Summary cost_build quote_pricing []) = 8082 - 7600
   \<and> margin (Summary cost_build quote_pricing []) = 482 / 8082 * 100"
proof -
  have "profit (Summary cost_build quote_pricing []) =
          netBeforeVAT (Summary cost_build quote_pricing []) - costTotal (Summary cost_build quote_pricing [])"
    and "margin (Summary cost_build quote_pricing []) =
          (if netBeforeVAT (Summary cost_build quote_pricing []) > 0
           then profit (Summary cost_build quote_pricing []) / netBeforeVAT (Summary cost_build quote_pricing []) * 100
           else 0)"
    using cost_and_margin [of cost_build quote_pricing "[]"] unfolding Let_def by blast+
  then show ?thesis
    by (simp add: cost_build_figures)
qed

section \<open>Properties of the compatibility checker\<close>

lemma report_notes_checkCompatibility:
  "report_notes (checkCompatibility num_str parts) =
     socketRule parts @ ramRule parts @ pcieRule parts @ caseRule parts @ coolerRule parts
     @ storageRule parts @ psuRule num_str parts"
  by (simp add: checkCompatibility_def Let_def)

lemma socketRule_present:
  assumes "parts CPU = Some cpu" "parts Motherboard = Some mb"
  shows "socketRule parts =
    [if attr_socket (attributes cpu) = attr_socket (attributes mb)
     then \<lparr>level = Ok,
           msg = ''CPU '' @ th_check @ '' '' @ th_mainboard @ '' '' @ th_check @ '' (''
                 @ th_socket_matches @ '')''\<rparr>
     else \<lparr>level = Error,
           msg = ''CPU socket ('' @ str_of (attr_socket (attributes cpu)) @ '') ''
                 @ th_not_match_mainboard @ '' ('' @ str_of (attr_socket (attributes mb))
                 @ '')''\<rparr>]"
  using assms by (simp add: socketRule_def)

text \<open>
  C2. When both a CPU and a motherboard are chosen: if their socket attributes are equal,
  the socket rule pushes no error note; if they differ, it pushes exactly one note, of level
  error, whose message is \<open>CPU socket (<cpu socket>) ... (<motherboard socket>)\<close> with both
  socket values. The notes of the report are those of the socket rule followed by those of
  the other six rules.
\<close>

theorem socket_rule:
  assumes "parts CPU = Some cpu" and "parts Motherboard = Some mb"
  shows "(attr_socket (attributes cpu) = attr_socket (attributes mb) \<longrightarrow>
            filter (\<lambda>n. level n = Error) (socketRule parts) = [])
       \<and> (attr_socket (attributes cpu) \<noteq> attr_socket (attributes mb) \<longrightarrow>
            socketRule parts =
              [\<lparr>level = Error,
                msg = ''CPU socket ('' @ str_of (attr_socket (attributes cpu)) @ '') ''
                      @ th_not_match_mainboard @ '' ('' @ str_of (attr_socket (attributes mb))
                      @ '')''\<rparr>]
            \<and> length (filter (\<lambda>n. level n = Error) (socketRule parts)) = 1)
       \<and> report_notes (checkCompatibility num_str parts) =
            socketRule parts @ ramRule parts @ pcieRule parts @ caseRule parts
            @ coolerRule parts @ storageRule parts @ psuRule num_str parts"
  using socketRule_present [OF assms] report_notes_checkCompatibility [of num_str parts]
  by simp

theorem socket_rule_witness:
  "filter (\<lambda>n. level n = Error) (socketRule matching_parts) = []
   \<and> socketRule mismatched_parts =
       [\<lparr>level = Error,
         msg = ''CPU socket (AM5) '' @ th_not_match_mainboard @ '' (LGA1700)''\<rparr>]"
proof -
  have 1: "matching_parts CPU = Some cpu_ryzen" "matching_parts Motherboard = Some mb_b650"
    by (simp_all add: matching_parts_def)
  have 2: "mismatched_parts CPU = Some cpu_ryzen" "mismatched_parts Motherboard = Some mb_b760"
    by (simp_all add: mismatched_parts_def)
  have e: "attr_socket (attributes cpu_ryzen) = attr_socket (attributes mb_b650)"
    by (simp add: cpu_ryzen_def mb_b650_def)
  have n: "attr_socket (attributes cpu_ryzen) \<noteq> attr_socket (attributes mb_b760)"
    by (simp add: cpu_ryzen_def mb_b760_def)
  have s: "str_of (attr_socket (attributes cpu_ryzen)) = ''AM5''"
    "str_of (attr_socket (attributes mb_b760)) = ''LGA1700''"
    by (simp_all add: cpu_ryzen_def mb_b760_def)
  from socket_rule [OF 1, of decimal] e
  have a: "filter (\<lambda>n. level n = Error) (socketRule matching_parts) = []"
    by blast
  from socket_rule [OF 2, of decimal] n
  have "socketRule mismatched_parts =
          [\<lparr>level = Error,
            msg = ''CPU socket ('' @ str_of (attr_socket (attributes cpu_ryzen)) @ '') ''
                  @ th_not_match_mainboard @ '' ('' @ str_of (attr_socket (attributes mb_b760))
                  @ '')''\<rparr>]"
    by blast
  with a s show ?thesis by simp
qed

lemma psuRule_present:
  assumes "parts PSU = Some psu"
  shows "psuRule num_str parts =
    [if opt_or0 (attr_wattage (attributes psu)) < estimateWattage parts
     then \<lparr>level = Warn,
           msg = th_psu_power @ '' PSU '' @ num_str (opt_or0 (attr_wattage (attributes psu)))
                 @ ''W '' @ th_may_not_suffice @ '' '' @ th_need_at_least @ '' ~''
                 @ num_str (estimateWattage parts) @ ''W''\<rparr>
     else \<lparr>level = Ok,
           msg = ''PSU '' @ th_sufficient @ '' ('' @ th_need @ '' ~''
                 @ num_str (estimateWattage parts) @ ''W)''\<rparr>]"
  using assms by (simp add: psuRule_def Let_def)

lemma estimateWattage_no_cpu_gpu:
  assumes "parts CPU = None" "parts GPU = None"
  shows "estimateWattage parts = 100"
  using assms by (simp add: estimateWattage_def attr_def)

lemma psu_only_figures:
  "psu_only_parts PSU = Some psu_rm750" "psu_only_parts CPU = None" "psu_only_parts GPU = None"
  "psu_only_parts Motherboard = None"
  "opt_or0 (attr_wattage (attributes psu_rm750)) = 750"
  by (simp_all add: psu_only_parts_def psu_rm750_def or0_def)

lemma decimal_100: "decimal 100 = ''100''"
  by (simp add: decimal_def nat_digits.simps)

text \<open>
  C4, as stated, fails: a selection that holds only a PSU (no CPU, no GPU) gets a note from
  the PSU rule; here the note of level ok saying that the PSU is sufficient for about 100 W.
\<close>

theorem psu_rule_counterexample:
  "psu_only_parts PSU = Some psu_rm750 \<and> psu_only_parts CPU = None \<and> psu_only_parts GPU = None
   \<and> report_notes (checkCompatibility decimal psu_only_parts) =
       [\<lparr>level = Ok, msg = ''PSU '' @ th_sufficient @ '' ('' @ th_need @ '' ~100W)''\<rparr>]"
proof -
  have "psuRule decimal psu_only_parts =
          [\<lparr>level = Ok, msg = ''PSU '' @ th_sufficient @ '' ('' @ th_need @ '' ~100W)''\<rparr>]"
    by (simp add: psuRule_present [of psu_only_parts psu_rm750 decimal] psu_only_figures
        estimateWattage_no_cpu_gpu decimal_100)
  moreover have "socketRule psu_only_parts = []" "ramRule psu_only_parts = []"
    "pcieRule psu_only_parts = []" "caseRule psu_only_parts = []"
    "coolerRule psu_only_parts = []" "storageRule psu_only_parts = []"
    by (simp_all add: socketRule_def ramRule_def pcieRule_def caseRule_def coolerRule_def
        storageRule_def psu_only_figures split: option.splits)
  ultimately show ?thesis
    by (simp add: report_notes_checkCompatibility psu_only_figures)
qed

text \<open>
  C4, amended. Each of the six pairwise rules pushes a note only when both parts of its
  pair are present. The PSU rule looks at the PSU alone: it pushes no note when no PSU is
  chosen and exactly one note whenever a PSU is chosen; with neither a CPU nor a GPU the
  estimated need is the 100 W headroom, and the note is a warning when the PSU's wattage
  (0 when missing) is below 100 and an ok note otherwise.
\<close>

theorem rules_fire_on_present_parts:
  "(parts CPU = None \<or> parts Motherboard = None \<longrightarrow> socketRule parts = [])
 \<and> (parts RAM = None \<or> parts Motherboard = None \<longrightarrow> ramRule parts = [])
 \<and> (parts GPU = None \<or> parts Motherboard = None \<longrightarrow> pcieRule parts = [])
 \<and> (parts Case = None \<or> parts Motherboard = None \<longrightarrow> caseRule parts = [])
 \<and> (parts Cooler = None \<or> parts CPU = None \<longrightarrow> coolerRule parts = [])
 \<and> (parts Storage = None \<or> parts Motherboard = None \<longrightarrow> storageRule parts = [])
 \<and> (parts PSU = None \<longrightarrow> psuRule num_str parts = [])
 \<and> (parts PSU \<noteq> None \<longrightarrow> length (psuRule num_str parts) = 1)
 \<and> (\<forall>psu. parts PSU = Some psu \<and> parts CPU = None \<and> parts GPU = None \<longrightarrow>
       psuRule num_str parts =
         [if opt_or0 (attr_wattage (attributes psu)) < 100
          then \<lparr>level = Warn,
                msg = th_psu_power @ '' PSU '' @ num_str (opt_or0 (attr_wattage (attributes psu)))
                      @ ''W '' @ th_may_not_suffice @ '' '' @ th_need_at_least @ '' ~''
                      @ num_str 100 @ ''W''\<rparr>
          else \<lparr>level = Ok,
                msg = ''PSU '' @ th_sufficient @ '' ('' @ th_need @ '' ~'' @ num_str 100
                      @ ''W)''\<rparr>])"
proof -
  have 1: "parts CPU = None \<or> parts Motherboard = None \<longrightarrow> socketRule parts = []"
    by (auto simp: socketRule_def split: option.splits)
  have 2: "parts RAM = None \<or> parts Motherboard = None \<longrightarrow> ramRule parts = []"
    by (auto simp: ramRule_def split: option.splits)
  have 3: "parts GPU = None \<or> parts Motherboard = None \<longrightarrow> pcieRule parts = []"
    by (auto simp: pcieRule_def split: option.splits)
  have 4: "parts Case = None \<or> parts Motherboard = None \<longrightarrow> caseRule parts = []"
    by (auto simp: caseRule_def split: option.splits)
  have 5: "parts Cooler = None \<or> parts CPU = None \<longrightarrow> coolerRule parts = []"
    by (auto simp: coolerRule_def split: option.splits)
  have 6: "parts Storage = None \<or> parts Motherboard = None \<longrightarrow> storageRule parts = []"
    by (auto simp: storageRule_def split: option.splits)
  have 7: "parts PSU = None \<longrightarrow> psuRule num_str parts = []"
    by (simp add: psuRule_def)
  have 8: "parts PSU \<noteq> None \<longrightarrow> length (psuRule num_str parts) = 1"
    by (auto simp: psuRule_present)
  have 9: "\<forall>psu. parts PSU = Some psu \<and> parts CPU = None \<and> parts GPU = None \<longrightarrow>
       psuRule num_str parts =
         [if opt_or0 (attr_wattage (attributes psu)) < 100
          then \<lparr>level = Warn,
                msg = th_psu_power @ '' PSU '' @ num_str (opt_or0 (attr_wattage (attributes psu)))
                      @ ''W '' @ th_may_not_suffice @ '' '' @ th_need_at_least @ '' ~''
                      @ num_str 100 @ ''W''\<rparr>
          else \<lparr>level = Ok,
                msg = ''PSU '' @ th_sufficient @ '' ('' @ th_need @ '' ~'' @ num_str 100
                      @ ''W)''\<rparr>]"
    by (simp add: psuRule_present estimateWattage_no_cpu_gpu)
  from 1 2 3 4 5 6 7 8 9 show ?thesis
    by (intro conjI)
qed

theorem rules_fire_on_present_parts_witness:
  "socketRule psu_only_parts = [] \<and> ramRule psu_only_parts = [] \<and> pcieRule psu_only_parts = []
   \<and> caseRule psu_only_parts = [] \<and> coolerRule psu_only_parts = []
   \<and> storageRule psu_only_parts = []
   \<and> length (psuRule decimal psu_only_parts) = 1
   \<and> psuRule decimal psu_only_parts =
       [\<lparr>level = Ok, msg = ''PSU '' @ th_sufficient @ '' ('' @ th_need @ '' ~100W)''\<rparr>]"
  using rules_fire_on_present_parts [of psu_only_parts decimal]
  by (simp add: psu_only_figures decimal_100)

section \<open>Properties of the attribute filters\<close>

subsection \<open>Smart Sync\<close>

lemma derive_socket:
  "socket (deriveFiltersFromSelection bas current) =
     (if truthy_str (attr attr_socket (bas CPU)) then attr attr_socket (bas CPU)
      else if truthy_str (attr attr_socket (bas Motherboard)) then attr attr_socket (bas Motherboard)
      else socket current)"
  by (simp add: deriveFiltersFromSelection_def Let_def split: option.splits list.splits)

lemma derive_ramType:
  "ramType (deriveFiltersFromSelection bas current) =
     (if truthy_str (attr attr_ramType (bas Motherboard)) then attr attr_ramType (bas Motherboard)
      else ramType current)"
  by (simp add: deriveFiltersFromSelection_def Let_def split: option.splits list.splits)

lemma derive_formFactor:
  "formFactor (deriveFiltersFromSelection bas current) =
     (if truthy_str (attr attr_formFactor (bas Motherboard))
      then attr attr_formFactor (bas Motherboard) else formFactor current)"
  by (simp add: deriveFiltersFromSelection_def Let_def split: option.splits list.splits)

lemma derive_storageInterface:
  "storageInterface (deriveFiltersFromSelection bas current) =
     (if truthy_str (attr attr_interface (bas Storage)) then attr attr_interface (bas Storage)
      else case attr attr_storage (bas Motherboard) of
             Some (s # ss) \<Rightarrow> Some s
           | _ \<Rightarrow> storageInterface current)"
  by (simp add: deriveFiltersFromSelection_def Let_def split: option.splits list.splits)

lemma derive_coolerSocket:
  "coolerSocket (deriveFiltersFromSelection bas current) =
     (if truthy_str (attr attr_socket (bas CPU)) then attr attr_socket (bas CPU)
      else coolerSocket current)"
  by (simp add: deriveFiltersFromSelection_def Let_def split: option.splits list.splits)

lemma derive_minPSUWatt:
  "minPSUWatt (deriveFiltersFromSelection bas current) =
     (if bas PSU \<noteq> None then Some (max (estimateWattage bas) 0) else minPSUWatt current)"
  by (simp add: deriveFiltersFromSelection_def Let_def split: option.splits list.splits)

lemmas derive_fields = derive_socket derive_ramType derive_formFactor derive_storageInterface
  derive_coolerSocket derive_minPSUWatt

lemma truthy_str_not_None: "truthy_str x \<Longrightarrow> x \<noteq> None"
  by (cases x) simp_all

lemma attr_None [simp]: "attr key None = None"
  by (simp add: attr_def)

lemma derive_empty:
  assumes "\<forall>c. bas c = None"
  shows "deriveFiltersFromSelection bas current = current"
  by (rule AttrFilters.equality) (simp_all add: derive_fields assms)

text \<open>
  C6. Deriving the filters twice from the same base selection gives the same filter set as
  deriving them once.
\<close>

theorem derive_idempotent:
  "deriveFiltersFromSelection b (deriveFiltersFromSelection b f) = deriveFiltersFromSelection b f"
  by (rule AttrFilters.equality) (simp_all add: derive_fields split: option.splits list.splits)


theorem derive_idempotent_witness:
  "deriveFiltersFromSelection board_parts board_filters = board_filters"
  using derive_idempotent [of board_parts no_filters]
  by (simp add: board_filters_def)

text \<open>
  C5. Smart Sync merges into the previous filter set. A field that no derivation rule sets for
  the selection keeps its previous value: \<open>socket\<close> when neither the CPU nor the motherboard
  has a socket, \<open>ramType\<close> and \<open>formFactor\<close> when the motherboard does not have them,
  \<open>storageInterface\<close> when the storage part has no interface and the motherboard no port,
  \<open>coolerSocket\<close> when the CPU has no socket, \<open>minPSUWatt\<close> when no PSU is chosen. With an
  empty base selection the result is the previous filter set, and a field that was set
  before is set afterwards.
\<close>

theorem derive_merge:
  "((\<forall>c. bas c = None) \<longrightarrow> deriveFiltersFromSelection bas current = current)
 \<and> (\<not> truthy_str (attr attr_socket (bas CPU)) \<and> \<not> truthy_str (attr attr_socket (bas Motherboard))
      \<longrightarrow> socket (deriveFiltersFromSelection bas current) = socket current)
 \<and> (\<not> truthy_str (attr attr_ramType (bas Motherboard))
      \<longrightarrow> ramType (deriveFiltersFromSelection bas current) = ramType current)
 \<and> (\<not> truthy_str (attr attr_formFactor (bas Motherboard))
      \<longrightarrow> formFactor (deriveFiltersFromSelection bas current) = formFactor current)
 \<and> (\<not> truthy_str (attr attr_interface (bas Storage))
      \<and> or_empty (attr attr_storage (bas Motherboard)) = []
      \<longrightarrow> storageInterface (deriveFiltersFromSelection bas current) = storageInterface current)
 \<and> (\<not> truthy_str (attr attr_socket (bas CPU))
      \<longrightarrow> coolerSocket (deriveFiltersFromSelection bas current) = coolerSocket current)
 \<and> (bas PSU = None
      \<longrightarrow> minPSUWatt (deriveFiltersFromSelection bas current) = minPSUWatt current)
 \<and> (socket current \<noteq> None \<longrightarrow> socket (deriveFiltersFromSelection bas current) \<noteq> None)
 \<and> (ramType current \<noteq> None \<longrightarrow> ramType (deriveFiltersFromSelection bas current) \<noteq> None)
 \<and> (formFactor current \<noteq> None \<longrightarrow> formFactor (deriveFiltersFromSelection bas current) \<noteq> None)
 \<and> (storageInterface current \<noteq> None
      \<longrightarrow> storageInterface (deriveFiltersFromSelection bas current) \<noteq> None)
 \<and> (coolerSocket current \<noteq> None
      \<longrightarrow> coolerSocket (deriveFiltersFromSelection bas current) \<noteq> None)
 \<and> (minPSUWatt current \<noteq> None
      \<longrightarrow> minPSUWatt (deriveFiltersFromSelection bas current) \<noteq> None)"
proof -
  have e: "(\<forall>c. bas c = None) \<longrightarrow> deriveFiltersFromSelection bas current = current"
    using derive_empty by blast
  have f1: "\<not> truthy_str (attr attr_socket (bas CPU))
      \<and> \<not> truthy_str (attr attr_socket (bas Motherboard))
      \<longrightarrow> socket (deriveFiltersFromSelection bas current) = socket current"
    by (simp add: derive_socket)
  have f2: "\<not> truthy_str (attr attr_ramType (bas Motherboard))
      \<longrightarrow> ramType (deriveFiltersFromSelection bas current) = ramType current"
    by (simp add: derive_ramType)
  have f3: "\<not> truthy_str (attr attr_formFactor (bas Motherboard))
      \<longrightarrow> formFactor (deriveFiltersFromSelection bas current) = formFactor current"
    by (simp add: derive_formFactor)
  have f4: "\<not> truthy_str (attr attr_interface (bas Storage))
      \<and> or_empty (attr attr_storage (bas Motherboard)) = []
      \<longrightarrow> storageInterface (deriveFiltersFromSelection bas current) = storageInterface current"
    by (auto simp: derive_storageInterface split: option.splits list.splits)
  have f5: "\<not> truthy_str (attr attr_socket (bas CPU))
      \<longrightarrow> coolerSocket (deriveFiltersFromSelection bas current) = coolerSocket current"
    by (simp add: derive_coolerSocket)
  have f6: "bas PSU = None
      \<longrightarrow> minPSUWatt (deriveFiltersFromSelection bas current) = minPSUWatt current"
    by (simp add: derive_minPSUWatt)
  have k1: "socket current \<noteq> None \<longrightarrow> socket (deriveFiltersFromSelection bas current) \<noteq> None"
    by (auto simp: derive_socket dest: truthy_str_not_None)
  have k2: "ramType current \<noteq> None \<longrightarrow> ramType (deriveFiltersFromSelection bas current) \<noteq> None"
    by (auto simp: derive_ramType dest: truthy_str_not_None)
  have k3: "formFactor current \<noteq> None
      \<longrightarrow> formFactor (deriveFiltersFromSelection bas current) \<noteq> None"
    by (auto simp: derive_formFactor dest: truthy_str_not_None)
  have k4: "storageInterface current \<noteq> None
      \<longrightarrow> storageInterface (deriveFiltersFromSelection bas current) \<noteq> None"
    by (auto simp: derive_storageInterface dest: truthy_str_not_None
        split: option.splits list.splits)
  have k5: "coolerSocket current \<noteq> None
      \<longrightarrow> coolerSocket (deriveFiltersFromSelection bas current) \<noteq> None"
    by (auto simp: derive_coolerSocket dest: truthy_str_not_None)
  have k6: "minPSUWatt current \<noteq> None
      \<longrightarrow> minPSUWatt (deriveFiltersFromSelection bas current) \<noteq> None"
    by (simp add: derive_minPSUWatt)
  from e f1 f2 f3 f4 f5 f6 k1 k2 k3 k4 k5 k6 show ?thesis
    by (intro conjI)
qed

lemma board_filters_fields:
  "socket board_filters = Some ''AM5''" "ramType board_filters = Some ''DDR5''"
  "formFactor board_filters = Some ''ATX''" "storageInterface board_filters = Some ''M.2 NVMe''"
  "coolerSocket board_filters = None" "minPSUWatt board_filters = None"
  by (simp_all add: board_filters_def derive_fields board_parts_def attr_def mb_b650_def
      no_attributes_def no_filters_def)

theorem derive_merge_witness:
  "deriveFiltersFromSelection Map.empty board_filters = board_filters
   \<and> coolerSocket (deriveFiltersFromSelection board_parts zero_watt_filters) = None
   \<and> minPSUWatt (deriveFiltersFromSelection board_parts zero_watt_filters) = Some 0
   \<and> socket (deriveFiltersFromSelection Map.empty board_filters) \<noteq> None"
proof -
  have a: "deriveFiltersFromSelection Map.empty board_filters = board_filters"
    using derive_merge [of Map.empty board_filters] by simp
  have "\<not> truthy_str (attr attr_socket (board_parts CPU))" "board_parts PSU = None"
    by (simp_all add: board_parts_def)
  with derive_merge [of board_parts zero_watt_filters]
  have "coolerSocket (deriveFiltersFromSelection board_parts zero_watt_filters)
          = coolerSocket zero_watt_filters"
    and "minPSUWatt (deriveFiltersFromSelection board_parts zero_watt_filters)
          = minPSUWatt zero_watt_filters"
    by blast+
  then have b: "coolerSocket (deriveFiltersFromSelection board_parts zero_watt_filters) = None"
    and c: "minPSUWatt (deriveFiltersFromSelection board_parts zero_watt_filters) = Some 0"
    by (simp_all add: zero_watt_filters_def no_filters_def)
  have "socket board_filters \<noteq> None"
    by (simp add: board_filters_fields)
  with derive_merge [of Map.empty board_filters]
  have d: "socket (deriveFiltersFromSelection Map.empty board_filters) \<noteq> None"
    by blast
  from a b c d show ?thesis by simp
qed

subsection \<open>Filter applier\<close>

lemma applyAttrFilters_filter: "applyAttrFilters cat items f = filter (keeps cat f) items"
  by (simp add: applyAttrFilters_def)

lemma set_applyAttrFilters:
  "p \<in> set (applyAttrFilters cat items f) \<longleftrightarrow> p \<in> set items \<and> keeps cat f p"
  by (simp add: applyAttrFilters_filter)

lemma keeps_RAM: "keeps RAM f p"
  by (simp add: keeps_def Let_def split: option.splits)

lemma keeps_GPU: "keeps GPU f p"
  by (simp add: keeps_def Let_def split: option.splits)

lemma keeps_CPU:
  "keeps CPU f p \<longleftrightarrow> (truthy_str (socket f) \<longrightarrow> attr_socket (attributes p) = socket f)"
  by (simp add: keeps_def Let_def split: option.splits)

lemma keeps_Motherboard:
  "keeps Motherboard f p \<longleftrightarrow>
     (truthy_str (socket f) \<longrightarrow> attr_socket (attributes p) = socket f)
   \<and> (truthy_str (ramType f) \<longrightarrow> attr_ramType (attributes p) = ramType f)
   \<and> (truthy_str (formFactor f) \<longrightarrow> attr_formFactor (attributes p) = formFactor f)
   \<and> (truthy_str (storageInterface f) \<longrightarrow>
        array_includes (or_empty (attr_storage (attributes p))) (storageInterface f))"
  by (auto simp: keeps_def Let_def split: option.splits)

lemma keeps_Case:
  "keeps Case f p \<longleftrightarrow>
     (truthy_str (formFactor f) \<longrightarrow>
        array_includes (or_empty (attr_formFactorSupport (attributes p))) (formFactor f))"
  by (simp add: keeps_def Let_def split: option.splits)

lemma keeps_Storage:
  "keeps Storage f p \<longleftrightarrow>
     (truthy_str (storageInterface f) \<longrightarrow> attr_interface (attributes p) = storageInterface f)"
  by (simp add: keeps_def Let_def split: option.splits)

lemma keeps_PSU:
  "keeps PSU f p \<longleftrightarrow>
     (case minPSUWatt f of None \<Rightarrow> True | Some w \<Rightarrow> w \<le> opt_or0 (attr_wattage (attributes p)))"
  by (auto simp: keeps_def Let_def split: option.splits)

lemma keeps_Cooler:
  "keeps Cooler f p \<longleftrightarrow>
     (truthy_str (coolerSocket f) \<longrightarrow>
        array_includes (or_empty (attr_socketSupport (attributes p))) (coolerSocket f))"
  by (simp add: keeps_def Let_def split: option.splits)

lemmas keeps_cat = keeps_CPU keeps_Motherboard keeps_GPU keeps_RAM keeps_Storage keeps_PSU
  keeps_Case keeps_Cooler

lemma truthy_str_Some: "truthy_str (Some s) \<longleftrightarrow> s \<noteq> []"
  by simp

lemma sample_attributes:
  "attr_type (attributes ram_ddr4) = Some ''DDR4''"
  "attr_type (attributes ram_ddr5) = Some ''DDR5''"
  "attributes mb_bare = no_attributes"
  "attributes psu_bare = no_attributes"
  "attr_ramType (attributes mb_ddr4) = Some ''DDR4''"
  "attr_ramType (attributes mb_b650) = Some ''DDR5''"
  "attr_socket (attributes mb_b650) = Some ''AM5''"
  "attr_formFactor (attributes mb_b650) = Some ''ATX''"
  "attr_storage (attributes mb_b650) = Some [''M.2 NVMe'', ''SATA'']"
  "attr_ramType no_attributes = None"
  "attr_wattage no_attributes = None"
  by (simp_all add: ram_ddr4_def ram_ddr5_def mb_bare_def psu_bare_def mb_ddr4_def mb_b650_def
      no_attributes_def)

text \<open>
  How \<open>ramType\<close> restricts the Motherboard category: with \<open>ramType = "DDR5"\<close> a board
  whose \<open>ramType\<close> attribute is not "DDR5" is excluded, boards without the attribute
  included, and a board whose \<open>ramType\<close> is "DDR5" is kept exactly when it also passes the
  \<open>socket\<close>, \<open>formFactor\<close> and \<open>storageInterface\<close> constraints in force.
\<close>

lemma ramType_restricts_Motherboard:
  assumes "ramType f = Some ''DDR5''"
  shows "(\<forall>p \<in> set items. attr_ramType (attributes p) \<noteq> Some ''DDR5'' \<longrightarrow>
         p \<notin> set (applyAttrFilters Motherboard items f))
   \<and> (\<forall>p \<in> set items. attr_ramType (attributes p) = Some ''DDR5'' \<longrightarrow>
         (p \<in> set (applyAttrFilters Motherboard items f) \<longleftrightarrow>
            (truthy_str (socket f) \<longrightarrow> attr_socket (attributes p) = socket f)
          \<and> (truthy_str (formFactor f) \<longrightarrow> attr_formFactor (attributes p) = formFactor f)
          \<and> (truthy_str (storageInterface f) \<longrightarrow>
               array_includes (or_empty (attr_storage (attributes p))) (storageInterface f))))"
  using assms by (simp add: set_applyAttrFilters keeps_Motherboard)

lemma board_filters_on_boards:
  "applyAttrFilters Motherboard [mb_b650, mb_ddr4, mb_bare] board_filters = [mb_b650]"
proof -
  have "keeps Motherboard board_filters mb_b650"
    and "\<not> keeps Motherboard board_filters mb_ddr4"
    and "\<not> keeps Motherboard board_filters mb_bare"
    by (simp_all add: keeps_Motherboard board_filters_fields sample_attributes)
  then show ?thesis
    by (simp add: applyAttrFilters_filter)
qed

text \<open>
  C3 at the failing input. With the filters derived from a chosen DDR5 motherboard
  (\<open>ramType = "DDR5"\<close>), the RAM candidates are returned unchanged: the DDR4 module, whose
  \<open>type\<close> is not "DDR5", is not excluded. No branch of the filter tests the RAM category,
  although the filter panel labels the constraint "RAM Type (MB/RAM)" and the same filters
  do reduce the motherboards to the DDR5 board.
\<close>

theorem ram_filter_not_applied:
  "ramType board_filters = Some ''DDR5''
   \<and> attr_type (attributes ram_ddr4) \<noteq> Some ''DDR5''
   \<and> applyAttrFilters RAM [ram_ddr5, ram_ddr4] board_filters = [ram_ddr5, ram_ddr4]
   \<and> ram_ddr4 \<in> set (applyAttrFilters RAM [ram_ddr5, ram_ddr4] board_filters)
   \<and> applyAttrFilters Motherboard [mb_b650, mb_ddr4, mb_bare] board_filters = [mb_b650]"
proof -
  have "applyAttrFilters RAM [ram_ddr5, ram_ddr4] board_filters = [ram_ddr5, ram_ddr4]"
    by (simp add: applyAttrFilters_filter keeps_RAM)
  then show ?thesis
    by (simp add: board_filters_fields sample_attributes board_filters_on_boards)
qed

text \<open>
  C7, as stated, fails: with \<open>minPSUWatt = 0\<close> set, a PSU candidate without a \<open>wattage\<close>
  attribute is kept, its missing wattage counting as 0.
\<close>

theorem missing_wattage_counterexample:
  "minPSUWatt zero_watt_filters = Some 0
   \<and> attr_wattage (attributes psu_bare) = None
   \<and> applyAttrFilters PSU [psu_bare] zero_watt_filters = [psu_bare]"
  by (simp add: zero_watt_filters_def sample_attributes applyAttrFilters_filter keeps_PSU)

text \<open>
  C7, amended. A string constraint is in force when it is a non-empty string,
  \<open>minPSUWatt\<close> when it is present. For a candidate \<open>p\<close> of the list that lacks the
  relevant attribute: a constraint in force on \<open>socket\<close> excludes it from CPU and
  Motherboard, on \<open>ramType\<close> from Motherboard, on \<open>formFactor\<close> from Motherboard and Case,
  on \<open>storageInterface\<close> from Storage and Motherboard, on \<open>coolerSocket\<close> from Cooler. A
  PSU candidate with no \<open>wattage\<close> counts as 0 W: with \<open>minPSUWatt = w\<close> it is excluded
  when \<open>w > 0\<close> and kept when \<open>w \<le> 0\<close>. A constraint that is not in force imposes no
  restriction, field by field: whatever the other fields are, a candidate that meets every
  constraint in force for its category is kept (\<open>ramType\<close> being taken as a constraint on
  the \<open>ramType\<close> of a Motherboard and on the \<open>type\<close> of a RAM module). In particular, when
  no constraint is in force, every category's list is returned unchanged.
\<close>

theorem missing_attribute_filter:
  assumes "p \<in> set items"
  shows
   "(truthy_str (socket f) \<and> attr_socket (attributes p) = None \<longrightarrow>
       p \<notin> set (applyAttrFilters CPU items f) \<and> p \<notin> set (applyAttrFilters Motherboard items f))
  \<and> (truthy_str (ramType f) \<and> attr_ramType (attributes p) = None \<longrightarrow>
       p \<notin> set (applyAttrFilters Motherboard items f))
  \<and> (truthy_str (formFactor f) \<and> attr_formFactor (attributes p) = None \<longrightarrow>
       p \<notin> set (applyAttrFilters Motherboard items f))
  \<and> (truthy_str (formFactor f) \<and> attr_formFactorSupport (attributes p) = None \<longrightarrow>
       p \<notin> set (applyAttrFilters Case items f))
  \<and> (truthy_str (storageInterface f) \<and> attr_interface (attributes p) = None \<longrightarrow>
       p \<notin> set (applyAttrFilters Storage items f))
  \<and> (truthy_str (storageInterface f) \<and> attr_storage (attributes p) = None \<longrightarrow>
       p \<notin> set (applyAttrFilters Motherboard items f))
  \<and> (truthy_str (coolerSocket f) \<and> attr_socketSupport (attributes p) = None \<longrightarrow>
       p \<notin> set (applyAttrFilters Cooler items f))
  \<and> (\<forall>w. minPSUWatt f = Some w \<and> attr_wattage (attributes p) = None \<longrightarrow>
       (p \<in> set (applyAttrFilters PSU items f) \<longleftrightarrow> w \<le> 0))
  \<and> ((truthy_str (socket f) \<and> (cat = CPU \<or> cat = Motherboard) \<longrightarrow>
         attr_socket (attributes p) = socket f)
     \<and> (truthy_str (ramType f) \<and> cat = Motherboard \<longrightarrow>
         attr_ramType (attributes p) = ramType f)
     \<and> (truthy_str (ramType f) \<and> cat = RAM \<longrightarrow>
         attr_type (attributes p) = ramType f)
     \<and> (truthy_str (formFactor f) \<and> cat = Motherboard \<longrightarrow>
         attr_formFactor (attributes p) = formFactor f)
     \<and> (truthy_str (formFactor f) \<and> cat = Case \<longrightarrow>
         array_includes (or_empty (attr_formFactorSupport (attributes p))) (formFactor f))
     \<and> (truthy_str (storageInterface f) \<and> cat = Storage \<longrightarrow>
         attr_interface (attributes p) = storageInterface f)
     \<and> (truthy_str (storageInterface f) \<and> cat = Motherboard \<longrightarrow>
         array_includes (or_empty (attr_storage (attributes p))) (storageInterface f))
     \<and> (truthy_str (coolerSocket f) \<and> cat = Cooler \<longrightarrow>
         array_includes (or_empty (attr_socketSupport (attributes p))) (coolerSocket f))
     \<and> (\<forall>w. minPSUWatt f = Some w \<and> cat = PSU \<longrightarrow>
         w \<le> opt_or0 (attr_wattage (attributes p)))
     \<longrightarrow> p \<in> set (applyAttrFilters cat items f))
  \<and> (\<not> truthy_str (socket f) \<and> \<not> truthy_str (ramType f) \<and> \<not> truthy_str (formFactor f)
      \<and> \<not> truthy_str (storageInterface f) \<and> \<not> truthy_str (coolerSocket f)
      \<and> minPSUWatt f = None \<longrightarrow> applyAttrFilters cat items f = items)"
proof -
  have 1: "truthy_str (socket f) \<and> attr_socket (attributes p) = None \<longrightarrow>
       p \<notin> set (applyAttrFilters CPU items f) \<and> p \<notin> set (applyAttrFilters Motherboard items f)"
    by (auto simp: set_applyAttrFilters keeps_CPU keeps_Motherboard dest: truthy_str_not_None)
  have 2: "truthy_str (ramType f) \<and> attr_ramType (attributes p) = None \<longrightarrow>
       p \<notin> set (applyAttrFilters Motherboard items f)"
    by (auto simp: set_applyAttrFilters keeps_Motherboard dest: truthy_str_not_None)
  have 3: "truthy_str (formFactor f) \<and> attr_formFactor (attributes p) = None \<longrightarrow>
       p \<notin> set (applyAttrFilters Motherboard items f)"
    by (auto simp: set_applyAttrFilters keeps_Motherboard dest: truthy_str_not_None)
  have 4: "truthy_str (formFactor f) \<and> attr_formFactorSupport (attributes p) = None \<longrightarrow>
       p \<notin> set (applyAttrFilters Case items f)"
    by (cases "formFactor f") (auto simp: set_applyAttrFilters keeps_Case)
  have 5: "truthy_str (storageInterface f) \<and> attr_interface (attributes p) = None \<longrightarrow>
       p \<notin> set (applyAttrFilters Storage items f)"
    by (auto simp: set_applyAttrFilters keeps_Storage dest: truthy_str_not_None)
  have 6: "truthy_str (storageInterface f) \<and> attr_storage (attributes p) = None \<longrightarrow>
       p \<notin> set (applyAttrFilters Motherboard items f)"
    by (cases "storageInterface f") (auto simp: set_applyAttrFilters keeps_Motherboard)
  have 7: "truthy_str (coolerSocket f) \<and> attr_socketSupport (attributes p) = None \<longrightarrow>
       p \<notin> set (applyAttrFilters Cooler items f)"
    by (cases "coolerSocket f") (auto simp: set_applyAttrFilters keeps_Cooler)
  have 8: "\<forall>w. minPSUWatt f = Some w \<and> attr_wattage (attributes p) = None \<longrightarrow>
       (p \<in> set (applyAttrFilters PSU items f) \<longleftrightarrow> w \<le> 0)"
    using assms by (simp add: set_applyAttrFilters keeps_PSU)
  have 9: "(truthy_str (socket f) \<and> (cat = CPU \<or> cat = Motherboard) \<longrightarrow>
         attr_socket (attributes p) = socket f)
     \<and> (truthy_str (ramType f) \<and> cat = Motherboard \<longrightarrow>
         attr_ramType (attributes p) = ramType f)
     \<and> (truthy_str (ramType f) \<and> cat = RAM \<longrightarrow>
         attr_type (attributes p) = ramType f)
     \<and> (truthy_str (formFactor f) \<and> cat = Motherboard \<longrightarrow>
         attr_formFactor (attributes p) = formFactor f)
     \<and> (truthy_str (formFactor f) \<and> cat = Case \<longrightarrow>
         array_includes (or_empty (attr_formFactorSupport (attributes p))) (formFactor f))
     \<and> (truthy_str (storageInterface f) \<and> cat = Storage \<longrightarrow>
         attr_interface (attributes p) = storageInterface f)
     \<and> (truthy_str (storageInterface f) \<and> cat = Motherboard \<longrightarrow>
         array_includes (or_empty (attr_storage (attributes p))) (storageInterface f))
     \<and> (truthy_str (coolerSocket f) \<and> cat = Cooler \<longrightarrow>
         array_includes (or_empty (attr_socketSupport (attributes p))) (coolerSocket f))
     \<and> (\<forall>w. minPSUWatt f = Some w \<and> cat = PSU \<longrightarrow>
         w \<le> opt_or0 (attr_wattage (attributes p)))
     \<longrightarrow> p \<in> set (applyAttrFilters cat items f)"
    using assms
    by (cases cat) (auto simp: set_applyAttrFilters keeps_cat split: option.splits)
  have 10: "\<not> truthy_str (socket f) \<and> \<not> truthy_str (ramType f) \<and> \<not> truthy_str (formFactor f)
      \<and> \<not> truthy_str (storageInterface f) \<and> \<not> truthy_str (coolerSocket f)
      \<and> minPSUWatt f = None \<longrightarrow> applyAttrFilters cat items f = items"
    by (cases cat) (simp_all add: applyAttrFilters_filter keeps_cat)
  from 1 2 3 4 5 6 7 8 9 10 show ?thesis by (intro conjI)
qed

theorem missing_attribute_filter_witness:
  "mb_bare \<notin> set (applyAttrFilters Motherboard [mb_b650, mb_bare] board_filters)
   \<and> psu_bare \<in> set (applyAttrFilters PSU [psu_bare] zero_watt_filters)
   \<and> psu_bare \<notin> set (applyAttrFilters PSU [psu_bare] (no_filters\<lparr>minPSUWatt := Some 650\<rparr>))
   \<and> applyAttrFilters PSU [psu_bare] no_filters = [psu_bare]
   \<and> mb_b650 \<in> set (applyAttrFilters Motherboard [mb_b650, mb_bare]
                        (no_filters\<lparr>socket := Some ''AM5''\<rparr>))"
proof -
  have m: "mb_bare \<in> set [mb_b650, mb_bare]" and p: "psu_bare \<in> set [psu_bare]"
    and k: "mb_b650 \<in> set [mb_b650, mb_bare]"
    by simp_all
  have a: "mb_bare \<notin> set (applyAttrFilters Motherboard [mb_b650, mb_bare] board_filters)"
    using missing_attribute_filter [OF m, of board_filters]
    by (simp add: board_filters_fields sample_attributes)
  have b: "psu_bare \<in> set (applyAttrFilters PSU [psu_bare] zero_watt_filters)"
    using missing_attribute_filter [OF p, of zero_watt_filters]
    by (simp add: zero_watt_filters_def sample_attributes)
  have c: "psu_bare \<notin> set (applyAttrFilters PSU [psu_bare] (no_filters\<lparr>minPSUWatt := Some 650\<rparr>))"
    using missing_attribute_filter [OF p, of "no_filters\<lparr>minPSUWatt := Some 650\<rparr>"]
    by (simp add: sample_attributes)
  have d: "applyAttrFilters PSU [psu_bare] no_filters = [psu_bare]"
    using missing_attribute_filter [OF p, of no_filters PSU]
    by (simp add: no_filters_def)
  have e: "mb_b650 \<in> set (applyAttrFilters Motherboard [mb_b650, mb_bare]
                        (no_filters\<lparr>socket := Some ''AM5''\<rparr>))"
    using missing_attribute_filter [OF k, of "no_filters\<lparr>socket := Some ''AM5''\<rparr>" Motherboard]
    by (simp add: no_filters_def sample_attributes)
  from a b c d e show ?thesis by simp
qed

section \<open>Properties of the selection handlers\<close>

lemma addons_unique_emptyBuild: "addons_unique emptyBuild"
  by (simp add: addons_unique_def emptyBuild_def)

lemma addons_unique_selectBase: "addons_unique s \<Longrightarrow> addons_unique (selectBase cat p s)"
  by (simp add: addons_unique_def selectBase_def)

lemma map_product_id_qty_update:
  "map ((\<lambda>a. product_id (product a)) \<circ> (\<lambda>a. if P a then a\<lparr>qty := g a\<rparr> else a)) xs
     = map (\<lambda>a. product_id (product a)) xs"
  by (induction xs) simp_all

lemma addons_unique_updateAddonQty: "addons_unique s \<Longrightarrow> addons_unique (updateAddonQty i q s)"
  by (simp add: addons_unique_def updateAddonQty_def map_product_id_qty_update)

lemma addons_unique_removeAddon: "addons_unique s \<Longrightarrow> addons_unique (removeAddon i s)"
  by (simp add: addons_unique_def removeAddon_def distinct_map_filter)

lemma addons_unique_addAddon:
  assumes "addons_unique s"
  shows "addons_unique (addAddon uid p q s)"
proof (cases "find (\<lambda>a. product_id (product a) = product_id p) (addons s)")
  case None
  then have "product_id p \<notin> set (map (\<lambda>a. product_id (product a)) (addons s))"
    by (auto simp: find_None_iff)
  with assms None show ?thesis
    by (simp add: addons_unique_def addAddon_def)
next
  case (Some existing)
  with assms show ?thesis
    by (simp add: addons_unique_def addAddon_def map_product_id_qty_update)
qed

lemma addAddon_twice:
  "addons (addAddon ''e2'' cost_monitor 2 (addAddon ''e1'' cost_monitor 1 emptyBuild)) =
     [\<lparr>entry_id = ''e1'', product = cost_monitor, qty = 3\<rparr>]"
  by (simp add: addAddon_def emptyBuild_def)

text \<open>
  C9 at the failing input. The "add as option" button of the search dialog appends a new
  entry without looking for an existing one: on a selection that already holds the monitor
  (quantity 2), it leaves two entries for the same product id, where \<open>addAddon\<close> raises the
  quantity of the existing entry.
\<close>

theorem search_add_option_duplicates:
  "addons_unique cost_build
   \<and> addons (searchAddOption ''e2'' cost_monitor cost_build) =
       [\<lparr>entry_id = ''e1'', product = cost_monitor, qty = 2\<rparr>,
        \<lparr>entry_id = ''e2'', product = cost_monitor, qty = 1\<rparr>]
   \<and> \<not> addons_unique (searchAddOption ''e2'' cost_monitor cost_build)
   \<and> addons (addAddon ''e2'' cost_monitor 1 cost_build) =
       [\<lparr>entry_id = ''e1'', product = cost_monitor, qty = 3\<rparr>]"
  by (simp add: addons_unique_def searchAddOption_def addAddon_def cost_build_def)

text \<open>
  C10. \<open>updateAddonQty\<close> leaves the base selection and the number and order of the add-on
  entries unchanged; an entry whose id is the given one gets the given quantity, whatever
  its value (zero and negative quantities too), and keeps its id and product; every other
  entry is unchanged.
\<close>

theorem updateAddonQty_frame:
  "base (updateAddonQty i q s) = base s
   \<and> length (addons (updateAddonQty i q s)) = length (addons s)
   \<and> (\<forall>k < length (addons s).
        (entry_id (addons s ! k) = i \<longrightarrow>
           addons (updateAddonQty i q s) ! k = (addons s ! k)\<lparr>qty := q\<rparr>
           \<and> qty (addons (updateAddonQty i q s) ! k) = q)
      \<and> (entry_id (addons s ! k) \<noteq> i \<longrightarrow>
           addons (updateAddonQty i q s) ! k = addons s ! k))"
  by (simp add: updateAddonQty_def)

theorem updateAddonQty_frame_witness:
  "base (updateAddonQty ''e1'' (- 3) two_addons_build) = base two_addons_build
   \<and> addons (updateAddonQty ''e1'' (- 3) two_addons_build) =
       [\<lparr>entry_id = ''e1'', product = cost_monitor, qty = - 3\<rparr>,
        \<lparr>entry_id = ''e2'', product = quote_software, qty = 1\<rparr>]
   \<and> qty (addons (updateAddonQty ''e2'' 0 two_addons_build) ! 1) = 0"
proof -
  have l: "length (addons two_addons_build) = 2"
    and e: "addons two_addons_build ! 0 = \<lparr>entry_id = ''e1'', product = cost_monitor, qty = 2\<rparr>"
      "addons two_addons_build ! 1 = \<lparr>entry_id = ''e2'', product = quote_software, qty = 1\<rparr>"
    by (simp_all add: two_addons_build_def)
  note t = updateAddonQty_frame [of "''e1''" "- 3" two_addons_build]
  from t have b: "base (updateAddonQty ''e1'' (- 3) two_addons_build) = base two_addons_build"
    and n: "length (addons (updateAddonQty ''e1'' (- 3) two_addons_build)) = 2"
    using l by simp_all
  from t l e have 0: "addons (updateAddonQty ''e1'' (- 3) two_addons_build) ! 0 =
      \<lparr>entry_id = ''e1'', product = cost_monitor, qty = - 3\<rparr>"
    by simp
  from t l e have 1: "addons (updateAddonQty ''e1'' (- 3) two_addons_build) ! 1 =
      \<lparr>entry_id = ''e2'', product = quote_software, qty = 1\<rparr>"
    by simp
  have a: "addons (updateAddonQty ''e1'' (- 3) two_addons_build) =
       [\<lparr>entry_id = ''e1'', product = cost_monitor, qty = - 3\<rparr>,
        \<lparr>entry_id = ''e2'', product = quote_software, qty = 1\<rparr>]"
    using n 0 1 by (auto simp: list_eq_iff_nth_eq less_Suc_eq numeral_2_eq_2)
  from updateAddonQty_frame [of "''e2''" 0 two_addons_build] l e
  have z: "qty (addons (updateAddonQty ''e2'' 0 two_addons_build) ! 1) = 0"
    by simp
  from a b z show ?thesis by simp
qed

end
